theory Spec2Isabelle
  imports Main "HOL-Library.Word"
begin

section \<open>Data model of src/main.cpp\<close>

text \<open>
  Coordinates are \<open>std::pair<size_t, size_t>\<close>: 64-bit unsigned words, where \<open>-\<close> and
  \<open>+\<close> wrap around.  The counters and scores are C++ \<open>int\<close>: 32-bit words, read as
  two's complement by \<open>sint\<close>.  The play field
  \<open>std::array<std::array<char, width>, height>\<close> is a list of \<open>height\<close> rows of
  \<open>width\<close> characters; the persistent layer \<open>std::vector<std::string>\<close> is a list
  of strings of any lengths.  Indexing a \<open>std::array\<close>, a \<open>std::vector\<close> or a
  \<open>std::string\<close> out of range is undefined behaviour in C++; the model returns the
  error \<open>OutOfBounds\<close> there.
\<close>

type_synonym size_t = "64 word"
type_synonym cint = "32 word"
type_synonym coord = "size_t \<times> size_t"
type_synonym grid = "char list list"

datatype DIRECTION = UP | DOWN | LEFT | RIGHT
datatype ENEMY_TYPE = BLINKY | PINKY | INKY | CLYDE
datatype ENEMY_MODE = SCATTER | NORMAL | FRIGHTENED

datatype error = OutOfBounds | FileNotOpen

record player =
  pos :: coord
  direction :: DIRECTION
  current_anim_frame :: cint
  score :: cint
  max_score :: cint
  is_over :: bool
  portal_1 :: coord
  portal_2 :: coord

record enemy =
  pos :: coord
  icon :: char
  moved :: bool
  character :: ENEMY_TYPE
  mode :: ENEMY_MODE
  prev_move :: DIRECTION
  target :: coord

text \<open>The member \<open>player::icons\<close> is never assigned after its initialiser; it is indexed
  by the direction (\<open>UP = 0, DOWN = 1, LEFT = 2, RIGHT = 3\<close>).\<close>

fun icons :: "DIRECTION \<Rightarrow> char \<times> char" where
  "icons UP = (CHR ''v'', CHR ''o'')"
| "icons DOWN = (CHR ''^'', CHR ''o'')"
| "icons LEFT = (CHR ''>'', CHR ''o'')"
| "icons RIGHT = (CHR ''<'', CHR ''o'')"

subsection \<open>Reading and writing cells\<close>

definition cell_at :: "grid \<Rightarrow> size_t \<Rightarrow> size_t \<Rightarrow> char option" where
  "cell_at game_map i j =
     (if unat i < length game_map \<and> unat j < length (game_map ! unat i)
      then Some (game_map ! unat i ! unat j) else None)"

definition cell_set :: "grid \<Rightarrow> size_t \<Rightarrow> size_t \<Rightarrow> char \<Rightarrow> grid option" where
  "cell_set game_map i j c =
     (if unat i < length game_map \<and> unat j < length (game_map ! unat i)
      then Some (game_map[unat i := (game_map ! unat i)[unat j := c]]) else None)"

subsection \<open>player\<close>

definition player_has_no_collision :: "char \<Rightarrow> bool" where
  "player_has_no_collision c \<longleftrightarrow> c \<in> set '' .@[]BPIC''"

text \<open>\<open>player::move\<close>.  The cell in front of the player is read with no bounds check.  The
  \<open>default\<close> branch of the switch (an unknown direction) has no value of \<open>DIRECTION\<close>.\<close>

definition player_step :: "DIRECTION \<Rightarrow> coord \<Rightarrow> coord" where
  "player_step d p =
     (case d of
        UP \<Rightarrow> (fst p - 1, snd p)
      | DOWN \<Rightarrow> (fst p + 1, snd p)
      | LEFT \<Rightarrow> (fst p, snd p - 1)
      | RIGHT \<Rightarrow> (fst p, snd p + 1))"

definition player_move :: "grid \<Rightarrow> player \<Rightarrow> error + player" where
  "player_move game_map p =
     (let q = player_step (direction p) (player.pos p) in
      case cell_at game_map (fst q) (snd q) of
        None \<Rightarrow> Inl OutOfBounds
      | Some c \<Rightarrow> Inr (if player_has_no_collision c then p\<lparr>player.pos := q\<rparr> else p))"

subsection \<open>enemy\<close>

definition set_character :: "ENEMY_TYPE \<Rightarrow> enemy \<Rightarrow> enemy" where
  "set_character type e =
     e\<lparr>character := type,
       icon := (case type of BLINKY \<Rightarrow> CHR ''B'' | PINKY \<Rightarrow> CHR ''P''
                | INKY \<Rightarrow> CHR ''I'' | CLYDE \<Rightarrow> CHR ''C'')\<rparr>"

text \<open>\<open>(int)\<close> of a \<open>size_t\<close> keeps the low 32 bits; \<open>std::abs\<close> on \<open>int\<close> and the
  sum are taken with wrap-around; the \<open>int\<close> result becomes a \<open>size_t\<close> by sign
  extension.\<close>

definition to_int :: "size_t \<Rightarrow> cint" where
  "to_int x = ucast x"

definition abs_int :: "cint \<Rightarrow> cint" where
  "abs_int x = (if sint x < 0 then - x else x)"

definition int_to_size :: "cint \<Rightarrow> size_t" where
  "int_to_size x = scast x"

definition manhattanDistance :: "coord \<Rightarrow> coord \<Rightarrow> size_t" where
  "manhattanDistance p1 p2 =
     int_to_size (abs_int (to_int (fst p1) - to_int (fst p2))
                  + abs_int (to_int (snd p1) - to_int (snd p2)))"

text \<open>\<open>enemy::calculate_target\<close>.  In the \<open>NORMAL\<close> case the branch of \<open>CLYDE\<close> starts
  with \<open>break;\<close>, so the statements after it never run and the target keeps its value;
  \<open>FRIGHTENED\<close> assigns nothing.\<close>

definition calculate_target :: "size_t \<Rightarrow> size_t \<Rightarrow> player \<Rightarrow> enemy \<Rightarrow> enemy \<Rightarrow> enemy" where
  "calculate_target width height pacman blinky e =
     (case mode e of
        SCATTER \<Rightarrow>
          (case character e of
             BLINKY \<Rightarrow> e\<lparr>target := (1, width - 2)\<rparr>
           | PINKY \<Rightarrow> e\<lparr>target := (1, 1)\<rparr>
           | INKY \<Rightarrow> e\<lparr>target := (width - 2, height - 2)\<rparr>
           | CLYDE \<Rightarrow> e\<lparr>target := (height - 2, 1)\<rparr>)
      | NORMAL \<Rightarrow>
          (case character e of
             BLINKY \<Rightarrow> e\<lparr>target := player.pos pacman\<rparr>
           | PINKY \<Rightarrow>
               (case direction pacman of
                  UP \<Rightarrow> e\<lparr>target := (fst (player.pos pacman) - 4, snd (player.pos pacman) - 4)\<rparr>
                | LEFT \<Rightarrow> e\<lparr>target := (fst (player.pos pacman) - 4, snd (player.pos pacman))\<rparr>
                | DOWN \<Rightarrow> e\<lparr>target := (fst (player.pos pacman), snd (player.pos pacman) + 4)\<rparr>
                | RIGHT \<Rightarrow> e\<lparr>target := (fst (player.pos pacman) + 4, snd (player.pos pacman))\<rparr>)
           | INKY \<Rightarrow>
               (let init_pos =
                      (case direction pacman of
                         UP \<Rightarrow> (fst (player.pos pacman) - 2, snd (player.pos pacman) - 2)
                       | DOWN \<Rightarrow> (fst (player.pos pacman), snd (player.pos pacman) + 2)
                       | LEFT \<Rightarrow> (fst (player.pos pacman) - 2, snd (player.pos pacman))
                       | RIGHT \<Rightarrow> (fst (player.pos pacman) + 2, snd (player.pos pacman)));
                    finale =
                      (int_to_size (abs_int (to_int (fst (enemy.pos blinky)) - to_int (fst init_pos))),
                       int_to_size (abs_int (to_int (snd (enemy.pos blinky)) - to_int (snd init_pos))))
                in e\<lparr>target := (fst init_pos + fst finale, snd init_pos + snd finale)\<rparr>)
           | CLYDE \<Rightarrow> e)
      | FRIGHTENED \<Rightarrow> e)"

definition enemy_has_no_collision :: "char \<Rightarrow> bool" where
  "enemy_has_no_collision c \<longleftrightarrow> c \<in> set '' .@~<>v^o''"

definition isValidPosition :: "size_t \<Rightarrow> size_t \<Rightarrow> size_t \<Rightarrow> size_t \<Rightarrow> bool" where
  "isValidPosition x y width height \<longleftrightarrow> x \<ge> 0 \<and> x < width \<and> y \<ge> 0 \<and> y < height"

text \<open>The four steps of \<open>enemy::move\<close>, in the order of the vector \<open>directions\<close>; the first
  component is added to \<open>pos.first\<close>, the second to \<open>pos.second\<close>, and \<open>-1\<close> is the
  \<open>size_t\<close> of all ones.\<close>

definition directions :: "coord list" where
  "directions = [(0, - 1), (0, 1), (- 1, 0), (1, 0)]"

definition getDirection :: "coord \<Rightarrow> DIRECTION" where
  "getDirection p =
     (if p = (0, - 1) then UP
      else if p = (0, 1) then DOWN
      else if p = (1, 0) then RIGHT
      else if p = (- 1, 0) then LEFT
      else LEFT)"

fun getOppositeDirection :: "DIRECTION \<Rightarrow> DIRECTION" where
  "getOppositeDirection LEFT = RIGHT"
| "getOppositeDirection RIGHT = LEFT"
| "getOppositeDirection UP = DOWN"
| "getOppositeDirection DOWN = UP"

definition UINT_MAX :: size_t where
  "UINT_MAX = 4294967295"

text \<open>The state of the loop over \<open>directions\<close> in the chase branch of \<open>enemy::move\<close>:
  \<open>shortestPathLength\<close>, \<open>nextPos\<close> and \<open>new_move\<close>.\<close>

type_synonym best = "size_t \<times> coord \<times> DIRECTION"

definition try_direction ::
  "grid \<Rightarrow> size_t \<Rightarrow> size_t \<Rightarrow> enemy \<Rightarrow> coord \<Rightarrow> best \<Rightarrow> error + best" where
  "try_direction game_map width height e dir b =
     (let newX = fst (enemy.pos e) + fst dir;
          newY = snd (enemy.pos e) + snd dir
      in if isValidPosition newX newY width height then
           (case cell_at game_map newX newY of
              None \<Rightarrow> Inl OutOfBounds
            | Some c \<Rightarrow>
                if enemy_has_no_collision c
                   \<and> getDirection dir \<noteq> getOppositeDirection (prev_move e)
                then (let pathLength = manhattanDistance (newX, newY) (target e)
                      in if pathLength < fst b
                         then Inr (pathLength, (newX, newY), getDirection dir)
                         else Inr b)
                else Inr b)
         else Inr b)"

fun scan_directions ::
  "grid \<Rightarrow> size_t \<Rightarrow> size_t \<Rightarrow> enemy \<Rightarrow> coord list \<Rightarrow> best \<Rightarrow> error + best" where
  "scan_directions game_map width height e [] b = Inr b"
| "scan_directions game_map width height e (dir # dirs) b =
     (case try_direction game_map width height e dir b of
        Inl err \<Rightarrow> Inl err
      | Inr b' \<Rightarrow> scan_directions game_map width height e dirs b')"

text \<open>The chase branch of \<open>enemy::move\<close> (the mode is not \<open>FRIGHTENED\<close>).\<close>

definition chase_move ::
  "grid \<Rightarrow> size_t \<Rightarrow> size_t \<Rightarrow> player \<Rightarrow> enemy \<Rightarrow> enemy \<Rightarrow> error + enemy" where
  "chase_move game_map width height pacman blinky e =
     (let e1 = calculate_target width height pacman blinky e in
      case scan_directions game_map width height e1 directions
             (UINT_MAX, enemy.pos e1, LEFT) of
        Inl err \<Rightarrow> Inl err
      | Inr (shortestPathLength, nextPos, new_move) \<Rightarrow>
          Inr (e1\<lparr>prev_move := new_move, enemy.pos := nextPos\<rparr>))"

text \<open>The frightened branch of \<open>enemy::move\<close>.  The global generator \<open>gen\<close> is the list
  of the indices that \<open>dis(gen)\<close> is going to return, each one of \<open>0..3\<close> (a 2-bit
  word).  The loop \<open>while (!valid_move_found)\<close> takes one index per round; it may never
  end (the generator may keep returning rejected directions before all four have been
  tried), and a list that runs out before the loop ends is the value \<open>None\<close>.\<close>

type_synonym rnd = "2 word"

fun wander ::
  "grid \<Rightarrow> size_t \<Rightarrow> size_t \<Rightarrow> enemy \<Rightarrow> bool list \<Rightarrow> rnd list
   \<Rightarrow> (error + (coord \<times> DIRECTION) \<times> rnd list) option" where
  "wander game_map width height e visited [] = None"
| "wander game_map width height e visited (r # rs) =
     (let random_index = unat r;
          visited' = visited[random_index := True];
          selected_direction = directions ! random_index;
          x = fst (enemy.pos e) + fst selected_direction;
          y = snd (enemy.pos e) + snd selected_direction;
          rest = (if visited' ! 0 \<and> visited' ! 1 \<and> visited' ! 2 \<and> visited' ! 3
                  then Some (Inr ((enemy.pos e, LEFT), rs))
                  else wander game_map width height e visited' rs)
      in if isValidPosition x y width height then
           (case cell_at game_map x y of
              None \<Rightarrow> Some (Inl OutOfBounds)
            | Some c \<Rightarrow>
                if enemy_has_no_collision c
                   \<and> getDirection selected_direction \<noteq> getOppositeDirection (prev_move e)
                then Some (Inr (((x, y), getDirection selected_direction), rs))
                else rest)
         else rest)"

text \<open>\<open>enemy::move\<close>: the generator state goes in and comes out.\<close>

definition enemy_move ::
  "grid \<Rightarrow> size_t \<Rightarrow> size_t \<Rightarrow> player \<Rightarrow> enemy \<Rightarrow> rnd list \<Rightarrow> enemy
   \<Rightarrow> (error + enemy \<times> rnd list) option" where
  "enemy_move game_map width height pacman blinky rng e =
     (if mode e = FRIGHTENED then
        (case wander game_map width height e [False, False, False, False] rng of
           None \<Rightarrow> None
         | Some (Inl err) \<Rightarrow> Some (Inl err)
         | Some (Inr ((nextPos, new_move), rng')) \<Rightarrow>
             Some (Inr (e\<lparr>prev_move := new_move, enemy.pos := nextPos\<rparr>, rng')))
      else
        (case chase_move game_map width height pacman blinky e of
           Inl err \<Rightarrow> Some (Inl err)
         | Inr e' \<Rightarrow> Some (Inr (e', rng))))"

subsection \<open>get_map_str\<close>

text \<open>The map file is the list of its lines, or \<open>None\<close> when it cannot be opened.\<close>

definition valid_chars :: "char set" where
  "valid_chars = set ''# *|-~.[]@''"

fun scan_buff :: "size_t \<Rightarrow> string \<Rightarrow> size_t \<Rightarrow> string \<times> player \<Rightarrow> string \<times> player" where
  "scan_buff row [] i (line, p) = (line, p)"
| "scan_buff row (c # cs) i (line, p) =
     scan_buff row cs (i + 1)
       (if c \<in> valid_chars then line @ [c] else line,
        if c = CHR ''.'' then p\<lparr>max_score := max_score p + 10\<rparr>
        else if c = CHR ''@'' then p\<lparr>max_score := max_score p + 50\<rparr>
        else if c = CHR ''['' then p\<lparr>portal_2 := (row, i)\<rparr>
        else if c = CHR '']'' then p\<lparr>portal_1 := (row, i)\<rparr>
        else p)"

fun read_lines :: "string list \<Rightarrow> string list \<times> player \<Rightarrow> string list \<times> player" where
  "read_lines [] (answer, p) = (answer, p)"
| "read_lines (buff # rest) (answer, p) =
     (case scan_buff (of_nat (length answer)) buff 0 ([], p) of
        (line, p') \<Rightarrow> read_lines rest (answer @ [line], p'))"

definition get_map_str :: "string list option \<Rightarrow> player \<Rightarrow> error + string list \<times> player" where
  "get_map_str map_file plr =
     (case map_file of
        None \<Rightarrow> Inl FileNotOpen
      | Some file_lines \<Rightarrow> Inr (read_lines file_lines ([], plr)))"

subsection \<open>update_map\<close>

text \<open>The first two loops: every cell becomes a blank, then row \<open>i\<close> of \<open>game_vec\<close> is
  copied over the start of row \<open>i\<close> of \<open>game_map\<close>.  \<open>game_map[i]\<close> is evaluated for every
  \<open>i < game_vec.size()\<close>, so more lines than rows is an access out of range.\<close>

definition overlay_row :: "string \<Rightarrow> char list \<Rightarrow> char list" where
  "overlay_row src dst = take (length dst) src @ drop (length src) dst"

fun overlay :: "string list \<Rightarrow> grid \<Rightarrow> grid" where
  "overlay [] rows = rows"
| "overlay (v # vs) [] = []"
| "overlay (v # vs) (r # rs) = overlay_row v r # overlay vs rs"

definition redraw :: "string list \<Rightarrow> grid \<Rightarrow> error + grid" where
  "redraw game_vec game_map =
     (if length game_vec > length game_map then Inl OutOfBounds
      else Inr (overlay game_vec (map (map (\<lambda>c. CHR '' '')) game_map)))"

text \<open>Lines 499 to 514: the pellet, the power pellet and the two portals, one \<open>else if\<close>
  chain on the cell of the fresh map under the player.\<close>

definition eat_or_teleport ::
  "grid \<Rightarrow> player \<Rightarrow> string list \<Rightarrow> cint \<Rightarrow> error + player \<times> string list \<times> cint" where
  "eat_or_teleport game_map plr game_vec frightened_countdown =
     (case cell_at game_map (fst (player.pos plr)) (snd (player.pos plr)) of
        None \<Rightarrow> Inl OutOfBounds
      | Some c \<Rightarrow>
          if c = CHR ''.'' then
            (case cell_set game_vec (fst (player.pos plr)) (snd (player.pos plr)) CHR '' '' of
               None \<Rightarrow> Inl OutOfBounds
             | Some game_vec' \<Rightarrow>
                 Inr (plr\<lparr>score := score plr + 10\<rparr>, game_vec', frightened_countdown))
          else if c = CHR ''@'' then
            (case cell_set game_vec (fst (player.pos plr)) (snd (player.pos plr)) CHR '' '' of
               None \<Rightarrow> Inl OutOfBounds
             | Some game_vec' \<Rightarrow>
                 Inr (plr\<lparr>score := score plr + 50\<rparr>, game_vec', 10))
          else if fst (player.pos plr) = fst (portal_1 plr)
                  \<and> snd (player.pos plr) = snd (portal_1 plr) then
            Inr (plr\<lparr>player.pos := (fst (portal_2 plr), snd (portal_2 plr) + 1)\<rparr>,
                 game_vec, frightened_countdown)
          else if fst (player.pos plr) = fst (portal_2 plr)
                  \<and> snd (player.pos plr) = snd (portal_2 plr) then
            Inr (plr\<lparr>player.pos := (fst (portal_1 plr), snd (portal_1 plr) - 1)\<rparr>,
                 game_vec, frightened_countdown)
          else Inr (plr, game_vec, frightened_countdown))"

text \<open>Lines 516 to 524: the player's glyph, then the four enemies' glyphs.\<close>

definition player_glyph :: "player \<Rightarrow> char" where
  "player_glyph plr =
     (if sint (current_anim_frame plr) < 3 then fst (icons (direction plr))
      else snd (icons (direction plr)))"

fun draw_all :: "grid \<Rightarrow> (coord \<times> char) list \<Rightarrow> error + grid" where
  "draw_all game_map [] = Inr game_map"
| "draw_all game_map ((p, c) # sprites) =
     (case cell_set game_map (fst p) (snd p) c of
        None \<Rightarrow> Inl OutOfBounds
      | Some game_map' \<Rightarrow> draw_all game_map' sprites)"

text \<open>Lines 526 to 551: the capture of the player and the four \<open>if\<close>s that reset an eaten
  enemy, in the order of the source.  The second one assigns \<open>g4.mode\<close>.\<close>

definition caught :: "player \<Rightarrow> enemy \<Rightarrow> bool" where
  "caught plr g \<longleftrightarrow> enemy.pos g = player.pos plr \<and> mode g \<noteq> FRIGHTENED"

definition eaten :: "player \<Rightarrow> enemy \<Rightarrow> bool" where
  "eaten plr g \<longleftrightarrow> enemy.pos g = player.pos plr \<and> mode g = FRIGHTENED"

definition collisions ::
  "player \<Rightarrow> enemy \<Rightarrow> enemy \<Rightarrow> enemy \<Rightarrow> enemy \<Rightarrow> player \<times> enemy \<times> enemy \<times> enemy \<times> enemy" where
  "collisions plr g1 g2 g3 g4 =
     (let player' = (if caught plr g1 \<or> caught plr g2
                        \<or> caught plr g3 \<or> caught plr g4
                     then plr\<lparr>is_over := True\<rparr> else plr);
          g1' = (if eaten player' g1
                 then (set_character BLINKY (g1\<lparr>enemy.pos := (8, 16)\<rparr>))\<lparr>mode := NORMAL\<rparr>
                 else g1);
          g2' = (if eaten player' g2
                 then set_character PINKY (g2\<lparr>enemy.pos := (8, 16)\<rparr>)
                 else g2);
          g4a = (if eaten player' g2 then g4\<lparr>mode := NORMAL\<rparr> else g4);
          g3' = (if eaten player' g3
                 then (set_character INKY (g3\<lparr>enemy.pos := (8, 16)\<rparr>))\<lparr>mode := NORMAL\<rparr>
                 else g3);
          g4' = (if eaten player' g4a
                 then (set_character CLYDE (g4a\<lparr>enemy.pos := (8, 16)\<rparr>))\<lparr>mode := NORMAL\<rparr>
                 else g4a)
      in (player', g1', g2', g3', g4'))"

subsection \<open>The state of main and one round of its loop\<close>

record game =
  game_map :: grid
  pacman :: player
  ghost1 :: enemy
  ghost2 :: enemy
  ghost3 :: enemy
  ghost4 :: enemy
  game_is_running :: bool
  frameCount :: cint
  secs :: cint
  frightened_countdown :: cint
  game_vec :: "string list"
  gen :: "rnd list"

definition update_map :: "game \<Rightarrow> error + game" where
  "update_map g =
     (case redraw (game_vec g) (game_map g) of
        Inl err \<Rightarrow> Inl err
      | Inr fresh \<Rightarrow>
          (case eat_or_teleport fresh (pacman g) (game_vec g) (frightened_countdown g) of
             Inl err \<Rightarrow> Inl err
           | Inr (player', game_vec', countdown') \<Rightarrow>
               (case draw_all fresh
                       [(player.pos player', player_glyph player'),
                        (enemy.pos (ghost1 g), icon (ghost1 g)),
                        (enemy.pos (ghost2 g), icon (ghost2 g)),
                        (enemy.pos (ghost3 g), icon (ghost3 g)),
                        (enemy.pos (ghost4 g), icon (ghost4 g))] of
                  Inl err \<Rightarrow> Inl err
                | Inr drawn \<Rightarrow>
                    (case collisions player' (ghost1 g) (ghost2 g) (ghost3 g) (ghost4 g) of
                       (player'', g1', g2', g3', g4') \<Rightarrow>
                         Inr (g\<lparr>game_map := drawn, pacman := player'', game_vec := game_vec',
                                ghost1 := g1', ghost2 := g2', ghost3 := g3', ghost4 := g4',
                                frightened_countdown := countdown'\<rparr>)))))"

text \<open>A step that may fail or not return, followed by another one.\<close>

definition and_then ::
  "(error + 'a) option \<Rightarrow> ('a \<Rightarrow> (error + 'b) option) \<Rightarrow> (error + 'b) option" where
  "and_then r f = (case r of None \<Rightarrow> None | Some (Inl err) \<Rightarrow> Some (Inl err) | Some (Inr x) \<Rightarrow> f x)"

text \<open>The \<open>%\<close> of C++ on \<open>int\<close> truncates towards zero.\<close>

definition c_rem :: "int \<Rightarrow> int \<Rightarrow> int" where
  "c_rem a b = sgn a * (\<bar>a\<bar> mod \<bar>b\<bar>)"

definition set_modes :: "ENEMY_MODE \<Rightarrow> game \<Rightarrow> game" where
  "set_modes m g =
     g\<lparr>ghost1 := (ghost1 g)\<lparr>mode := m\<rparr>, ghost2 := (ghost2 g)\<lparr>mode := m\<rparr>,
       ghost3 := (ghost3 g)\<lparr>mode := m\<rparr>, ghost4 := (ghost4 g)\<lparr>mode := m\<rparr>\<rparr>"

definition set_icons :: "char \<Rightarrow> game \<Rightarrow> game" where
  "set_icons c g =
     g\<lparr>ghost1 := (ghost1 g)\<lparr>icon := c\<rparr>, ghost2 := (ghost2 g)\<lparr>icon := c\<rparr>,
       ghost3 := (ghost3 g)\<lparr>icon := c\<rparr>, ghost4 := (ghost4 g)\<lparr>icon := c\<rparr>\<rparr>"

definition reset_characters :: "game \<Rightarrow> game" where
  "reset_characters g =
     g\<lparr>ghost1 := set_character BLINKY (ghost1 g), ghost2 := set_character PINKY (ghost2 g),
       ghost3 := set_character INKY (ghost3 g), ghost4 := set_character CLYDE (ghost4 g)\<rparr>"

text \<open>Lines 599 to 615 of main: the end of the scatter phase, then the frightened mode
  forced on all four enemies while the countdown is not zero.\<close>

definition update_modes :: "game \<Rightarrow> game" where
  "update_modes g =
     (let g1 = (if secs g = 7 then set_modes NORMAL g else g)
      in if frightened_countdown g1 \<noteq> 0 then set_icons CHR ''X'' (set_modes FRIGHTENED g1)
         else g1)"

text \<open>Lines 617 to 660: the keyboard.  \<open>key\<close> is the pending character, \<open>None\<close> when
  \<open>kbhit()\<close> returns 0.\<close>

definition quit_on_q :: "char option \<Rightarrow> game \<Rightarrow> game" where
  "quit_on_q key g = (if key = Some CHR ''q'' then g\<lparr>game_is_running := False\<rparr> else g)"

definition steer :: "char \<Rightarrow> game \<Rightarrow> game" where
  "steer key g =
     (if key = CHR ''W'' \<or> key = CHR ''w'' then g\<lparr>pacman := (pacman g)\<lparr>direction := UP\<rparr>\<rparr>
      else if key = CHR ''S'' \<or> key = CHR ''s'' then g\<lparr>pacman := (pacman g)\<lparr>direction := DOWN\<rparr>\<rparr>
      else if key = CHR ''A'' \<or> key = CHR ''a'' then g\<lparr>pacman := (pacman g)\<lparr>direction := LEFT\<rparr>\<rparr>
      else if key = CHR ''D'' \<or> key = CHR ''d'' then g\<lparr>pacman := (pacman g)\<lparr>direction := RIGHT\<rparr>\<rparr>
      else if key = CHR ''q'' then g\<lparr>game_is_running := False\<rparr>
      else g)"

definition handle_input :: "char option \<Rightarrow> game \<Rightarrow> game" where
  "handle_input key g =
     (if score (pacman g) = max_score (pacman g) then quit_on_q key g
      else if is_over (pacman g) then quit_on_q key g
      else (case key of None \<Rightarrow> g | Some k \<Rightarrow> steer k g))"

text \<open>Lines 676 to 703: the seconds and the frightened countdown, an \<open>if\<close> with an
  \<open>else if\<close>.\<close>

definition countdown_update :: "game \<Rightarrow> game" where
  "countdown_update g =
     (if frameCount g = 0 \<and> secs g \<noteq> 7 then
        (let g1 = g\<lparr>secs := secs g + 1, frameCount := 0\<rparr>
         in if frightened_countdown g1 \<noteq> 0 then
              (let g2 = g1\<lparr>frightened_countdown := frightened_countdown g1 - 1\<rparr>
               in if frightened_countdown g2 = 0
                  then set_modes NORMAL (reset_characters g2) else g2)
            else g1)
      else if (frameCount g = 0 \<or> frameCount g = 60) \<and> frightened_countdown g \<noteq> 0 then
        (let g1 = g\<lparr>frightened_countdown := frightened_countdown g - 1\<rparr>
         in if frightened_countdown g1 = 0 then reset_characters g1 else g1)
      else g)"

text \<open>Lines 667 to 675: the player's move, the animation frame, the four enemies' moves
  (the third argument of each is \<open>ghost1\<close>, already moved for the last three).\<close>

definition next_anim_frame :: "player \<Rightarrow> player" where
  "next_anim_frame p =
     (let p1 = p\<lparr>current_anim_frame := current_anim_frame p + 1\<rparr>
      in if current_anim_frame p1 = 5 then p1\<lparr>current_anim_frame := 1\<rparr> else p1)"

definition move_phase :: "size_t \<Rightarrow> size_t \<Rightarrow> game \<Rightarrow> (error + game) option" where
  "move_phase width height g =
     and_then (Some (player_move (game_map g) (pacman g))) (\<lambda>p1.
       let p = next_anim_frame p1 in
       and_then (enemy_move (game_map g) width height p (ghost1 g) (gen g) (ghost1 g))
         (\<lambda>(g1, rng1).
       and_then (enemy_move (game_map g) width height p g1 rng1 (ghost2 g))
         (\<lambda>(g2, rng2).
       and_then (enemy_move (game_map g) width height p g1 rng2 (ghost3 g))
         (\<lambda>(g3, rng3).
       and_then (enemy_move (game_map g) width height p g1 rng3 (ghost4 g))
         (\<lambda>(g4, rng4).
       Some (Inr (countdown_update
         (g\<lparr>pacman := p, ghost1 := g1, ghost2 := g2, ghost3 := g3, ghost4 := g4,
            gen := rng4\<rparr>))))))))"

text \<open>One round of the loop of main, lines 591 to 707 (the sleep and the printing leave
  the state alone): the frame counter (line 591), the modes, the keyboard, the moves of
  every tenth frame with the timers (lines 662 to 704), then \<open>update_map\<close>.  \<open>width\<close>
  and \<open>height\<close> are the template arguments of \<open>enemy::move\<close>.\<close>

definition next_frame :: "game \<Rightarrow> game" where
  "next_frame g = g\<lparr>frameCount := frameCount g + 1\<rparr>"

definition moves :: "size_t \<Rightarrow> size_t \<Rightarrow> game \<Rightarrow> (error + game) option" where
  "moves width height g =
     (let g4 = (if frameCount g = 60 then g\<lparr>frameCount := 0\<rparr> else g)
      in if c_rem (sint (frameCount g4)) 10 = 0 then move_phase width height g4
         else Some (Inr g4))"

definition tick :: "size_t \<Rightarrow> size_t \<Rightarrow> char option \<Rightarrow> game \<Rightarrow> (error + game) option" where
  "tick width height key g =
     and_then (moves width height (handle_input key (update_modes (next_frame g))))
       (\<lambda>g5. Some (update_map g5))"


text \<open>The start of main, lines 555 to 574.  \<open>game_map\<close> is declared with no initialiser:
  its first content is a parameter.  The members that the designated initialisers leave
  out are value-initialised (\<open>prev_move\<close> is the enumerator 0, \<open>UP\<close>).  \<open>game_map\<close> has
  \<open>WIDTH\<close> rows of \<open>HEIGHT\<close> cells, so \<open>enemy::move\<close> is instantiated with
  \<open>width = HEIGHT\<close> and \<open>height = WIDTH\<close>.\<close>

definition WIDTH :: size_t where
  "WIDTH = 32"

definition HEIGHT :: size_t where
  "HEIGHT = 40"

definition initial_player :: player where
  "initial_player =
     \<lparr>player.pos = (WIDTH div 2, HEIGHT div 2), direction = UP, current_anim_frame = 1,
      score = 0, max_score = 0, is_over = False, portal_1 = (0, 0), portal_2 = (0, 0)\<rparr>"

definition initial_enemy :: "coord \<Rightarrow> ENEMY_TYPE \<Rightarrow> enemy" where
  "initial_enemy p type =
     set_character type
       \<lparr>enemy.pos = p, icon = CHR 0x00, moved = False, character = BLINKY, mode = SCATTER,
        prev_move = UP, target = (0, 0)\<rparr>"

definition main_init :: "grid \<Rightarrow> rnd list \<Rightarrow> string list option \<Rightarrow> error + game" where
  "main_init uninitialised rng map_file =
     (case get_map_str map_file initial_player of
        Inl err \<Rightarrow> Inl err
      | Inr (lines, plr) \<Rightarrow>
          Inr \<lparr>game_map = uninitialised, pacman = plr,
               ghost1 = initial_enemy (8, 16) BLINKY, ghost2 = initial_enemy (10, 14) PINKY,
               ghost3 = initial_enemy (10, 15) INKY, ghost4 = initial_enemy (10, 16) CLYDE,
               game_is_running = True, frameCount = 0, secs = 0, frightened_countdown = 0,
               game_vec = lines, gen = rng\<rparr>)"

definition main_tick :: "char option \<Rightarrow> game \<Rightarrow> (error + game) option" where
  "main_tick = tick HEIGHT WIDTH"

section \<open>What the code is compared with\<close>

text \<open>The places of a character in a file: \<open>positions c n s\<close> lists the indices, counted
  from \<open>n\<close>, at which the line \<open>s\<close> holds \<open>c\<close>; \<open>occurrences c r file_lines\<close> lists the
  (row, index) pairs of \<open>c\<close> in parse order, the rows counted from \<open>r\<close>.\<close>

definition positions :: "char \<Rightarrow> nat \<Rightarrow> string \<Rightarrow> nat list" where
  "positions c n s = map fst (filter (\<lambda>ix. snd ix = c) (enumerate n s))"

definition occurrences :: "char \<Rightarrow> nat \<Rightarrow> string list \<Rightarrow> (nat \<times> nat) list" where
  "occurrences c r file_lines =
     concat (map (\<lambda>rl. map (Pair (fst rl)) (positions c 0 (snd rl))) (enumerate r file_lines))"

definition last_or :: "'a \<Rightarrow> 'a list \<Rightarrow> 'a" where
  "last_or d xs = (if xs = [] then d else last xs)"

definition to_coord :: "nat \<times> nat \<Rightarrow> coord" where
  "to_coord p = (of_nat (fst p), of_nat (snd p))"

text \<open>The player after a parse: 10 for every \<open>.\<close> and 50 for every \<open>@\<close> added to
  \<open>max_score\<close>, \<open>portal_1\<close> on the last \<open>]\<close> and \<open>portal_2\<close> on the last \<open>[\<close> of the file,
  each left as it was when the file has no such character.\<close>

definition parsed :: "string list \<Rightarrow> nat \<Rightarrow> player \<Rightarrow> player" where
  "parsed file_lines r p =
     p\<lparr>max_score := max_score p + 10 * of_nat (length (occurrences CHR ''.'' r file_lines))
                      + 50 * of_nat (length (occurrences CHR ''@'' r file_lines)),
       portal_1 := last_or (portal_1 p) (map to_coord (occurrences CHR '']'' r file_lines)),
       portal_2 := last_or (portal_2 p) (map to_coord (occurrences CHR ''['' r file_lines))\<rparr>"

text \<open>The persistent layer has neither a pellet nor a power pellet on the player's cell.\<close>

definition no_pellet_under :: "game \<Rightarrow> bool" where
  "no_pellet_under g \<longleftrightarrow>
     cell_at (game_vec g) (fst (player.pos (pacman g))) (snd (player.pos (pacman g)))
       \<notin> {Some CHR ''.'', Some CHR ''@''}"

text \<open>The persistent layer has a power pellet on the player's cell; the four enemies show
  their own glyphs; the four enemies are in one mode.\<close>

definition power_pellet_under :: "game \<Rightarrow> bool" where
  "power_pellet_under g \<longleftrightarrow>
     cell_at (game_vec g) (fst (player.pos (pacman g))) (snd (player.pos (pacman g)))
       = Some CHR ''@''"

definition own_glyphs :: "game \<Rightarrow> bool" where
  "own_glyphs g \<longleftrightarrow>
     icon (ghost1 g) = CHR ''B'' \<and> icon (ghost2 g) = CHR ''P''
     \<and> icon (ghost3 g) = CHR ''I'' \<and> icon (ghost4 g) = CHR ''C''"

definition all_modes :: "ENEMY_MODE \<Rightarrow> game \<Rightarrow> bool" where
  "all_modes m g \<longleftrightarrow>
     mode (ghost1 g) = m \<and> mode (ghost2 g) = m \<and> mode (ghost3 g) = m \<and> mode (ghost4 g) = m"



section \<open>Example states\<close>

text \<open>A map file of three lines and the state that main starts from with it, on a
  \<open>game_map\<close> of 32 rows of 40 blanks.\<close>

definition blank_map :: grid where
  "blank_map = replicate 32 (replicate 40 CHR '' '')"

definition example_file :: "string list" where
  "example_file = [''#####'', ''[. @]'', ''#####'']"

definition example_start :: game where
  "example_start =
     \<lparr>game_map = blank_map,
      pacman = initial_player\<lparr>max_score := 60, portal_1 := (1, 4), portal_2 := (1, 0)\<rparr>,
      ghost1 = initial_enemy (8, 16) BLINKY, ghost2 = initial_enemy (10, 14) PINKY,
      ghost3 = initial_enemy (10, 15) INKY, ghost4 = initial_enemy (10, 16) CLYDE,
      game_is_running = True, frameCount = 0, secs = 0, frightened_countdown = 0,
      game_vec = example_file, gen = []\<rparr>"

text \<open>An enemy put on a cell in frightened mode, with the glyph of that mode.\<close>

definition frighten_on :: "coord \<Rightarrow> enemy \<Rightarrow> enemy" where
  "frighten_on p e = e\<lparr>enemy.pos := p, mode := FRIGHTENED, icon := CHR ''X''\<rparr>"

definition blinky_on_player :: game where
  "blinky_on_player =
     example_start\<lparr>ghost1 := frighten_on (16, 20) (ghost1 example_start),
                   frightened_countdown := 5\<rparr>"

text \<open>The example with the player on \<open>portal_1\<close>; a file whose first line starts with a
  character that is dropped, the state main starts from with it, and that state with the
  player on \<open>portal_2\<close>; the player of the example after the first portal, after a step to
  the left, and after the second portal.\<close>

definition player_on_portal_1 :: game where
  "player_on_portal_1 = example_start\<lparr>pacman := (pacman example_start)\<lparr>player.pos := (1, 4)\<rparr>\<rparr>"

definition shifted_file :: "string list" where
  "shifted_file = [''x[.]'']"

definition shifted_start :: game where
  "shifted_start =
     example_start\<lparr>pacman := initial_player\<lparr>max_score := 10, portal_1 := (0, 3), portal_2 := (0, 1)\<rparr>,
                   game_vec := [''[.]'']\<rparr>"

definition player_on_portal_2 :: game where
  "player_on_portal_2 = shifted_start\<lparr>pacman := (pacman shifted_start)\<lparr>player.pos := (0, 1)\<rparr>\<rparr>"

definition after_first_portal :: game where
  "after_first_portal = projr (update_map player_on_portal_1)"

definition stepped_left :: player where
  "stepped_left =
     projr (player_move (game_map after_first_portal)
              ((pacman after_first_portal)\<lparr>direction := LEFT\<rparr>))"

definition after_second_portal :: game where
  "after_second_portal = projr (update_map (after_first_portal\<lparr>pacman := stepped_left\<rparr>))"

text \<open>The example on the last frame of a second, with the countdown at 10 and a generator
  that returns 0 four times; the state after the moves of that round, and after the
  round.\<close>

definition last_frame :: game where
  "last_frame = example_start\<lparr>frameCount := 59, frightened_countdown := 10, gen := [0, 0, 0, 0]\<rparr>"

definition after_last_frame :: game where
  "after_last_frame = projr (the (main_tick None last_frame))"

definition moved_last_frame :: game where
  "moved_last_frame =
     projr (the (moves HEIGHT WIDTH (handle_input None (update_modes (next_frame last_frame)))))"





text \<open>Blinky in chase mode on a cell, with the direction of its last move, and the
  player on a cell.  The map of main with walls on three sides of (5, 5): the cells
  (5, 4), (4, 5) and (6, 5); the fourth neighbour, (5, 6), is open.\<close>

definition chaser_at :: "coord \<Rightarrow> DIRECTION \<Rightarrow> enemy" where
  "chaser_at p d = (initial_enemy p BLINKY)\<lparr>mode := NORMAL, prev_move := d\<rparr>"

definition player_at :: "coord \<Rightarrow> player" where
  "player_at p = initial_player\<lparr>player.pos := p\<rparr>"

definition wall_on :: "nat \<Rightarrow> nat \<Rightarrow> grid \<Rightarrow> grid" where
  "wall_on i j gm = gm[i := (gm ! i)[j := CHR ''#'']]"

definition dead_end_map :: grid where
  "dead_end_map = wall_on 5 4 (wall_on 4 5 (wall_on 6 5 blank_map))"

section \<open>Facts about the embedding\<close>

subsection \<open>The start of main\<close>

lemma initial_player_pos: "player.pos initial_player = (16, 20)"
  by (simp add: initial_player_def WIDTH_def HEIGHT_def)


subsection \<open>player::move at the edge of the map\<close>

lemma unat_minus_one_size_t: "unat (- 1 :: size_t) = 18446744073709551615"
  by (simp add: unsigned_minus_1_eq_mask mask_eq_exp_minus_1)

lemma player_move_up_from_row_0:
  assumes "fst (player.pos p) = 0" and "direction p = UP"
    and "length gm < 18446744073709551616"
  shows "player_move gm p = Inl OutOfBounds"
  using assms
  by (simp add: player_move_def player_step_def cell_at_def Let_def unat_minus_one_size_t)

text \<open>
  Claim C6 (the move of the player reads only cells inside the map; at row 0 facing up
  and at column 0 facing left the index does not underflow).  The code has no such
  guard: on the 32 by 40 map of main, a player in row 0 that faces up makes
  \<open>player::move\<close> read \<open>game_map[pos.first - 1]\<close> with \<open>pos.first - 1\<close> wrapped around
  to the largest \<open>size_t\<close>, and a player in column 0 that faces left reads column
  \<open>2^64 - 1\<close>: both are accesses out of range.
\<close>

theorem player_move_reads_outside_the_map:
  "player_move (replicate 32 (replicate 40 CHR '' ''))
     (initial_player\<lparr>player.pos := (0, 20), direction := UP\<rparr>) = Inl OutOfBounds
   \<and> player_move (replicate 32 (replicate 40 CHR '' ''))
     (initial_player\<lparr>player.pos := (16, 0), direction := LEFT\<rparr>) = Inl OutOfBounds"
  by (simp add: player_move_def player_step_def cell_at_def Let_def unat_minus_one_size_t)

subsection \<open>The targets of the chase mode\<close>

lemma clyde_chase_target_unchanged:
  "mode e = NORMAL \<Longrightarrow> character e = CLYDE \<Longrightarrow> calculate_target width height pac blinky e = e"
  by (simp add: calculate_target_def)

text \<open>
  Claim C2 (in chase mode the target of Clyde is the player's cell when the Manhattan
  distance to the player exceeds 8, and his scatter corner otherwise).  The code leaves
  the branch before the test: with Clyde on (10, 16), the player on (16, 20), ten tiles
  away, and the target still the scatter corner (30, 1) of the scatter phase,
  \<open>calculate_target\<close> keeps the target (30, 1) and does not take the player's cell.
\<close>

theorem clyde_far_from_player_keeps_target:
  "(let clyde = (initial_enemy (10, 16) CLYDE)\<lparr>mode := NORMAL, target := (30, 1)\<rparr>;
        pac = initial_player
    in manhattanDistance (enemy.pos clyde) (player.pos pac) > 8
     \<and> target (calculate_target HEIGHT WIDTH pac (initial_enemy (8, 16) BLINKY) clyde) = (30, 1)
     \<and> player.pos pac = (16, 20))"
  by (simp add: manhattanDistance_def to_int_def abs_int_def int_to_size_def initial_enemy_def
      initial_player_pos calculate_target_def set_character_def Let_def)

text \<open>
  Claim C3 (in chase mode the target of Pinky is four tiles ahead of the player in the
  direction the player faces, with four tiles to the left added when the player faces
  up).  The player's own move (\<open>player_step\<close>) goes left by \<open>pos.second - 1\<close>, down by
  \<open>pos.first + 1\<close> and right by \<open>pos.second + 1\<close>; the target of Pinky for a player that
  faces left is \<open>pos.first - 4\<close>, four tiles above the player, for one that faces down
  \<open>pos.second + 4\<close>, four tiles to the right, and for one that faces right
  \<open>pos.first + 4\<close>, four tiles below.
\<close>

theorem pinky_target_not_ahead_of_player:
  "(let pinky = (initial_enemy (10, 14) PINKY)\<lparr>mode := NORMAL\<rparr>;
        blinky = initial_enemy (8, 16) BLINKY;
        aim = (\<lambda>d. target (calculate_target HEIGHT WIDTH (initial_player\<lparr>direction := d\<rparr>)
                             blinky pinky));
        ahead = (\<lambda>d. (player_step d ^^ 4) (player.pos initial_player))
    in aim LEFT = (12, 20) \<and> ahead LEFT = (16, 16)
     \<and> aim DOWN = (16, 24) \<and> ahead DOWN = (20, 20)
     \<and> aim RIGHT = (20, 20) \<and> ahead RIGHT = (16, 24)
     \<and> aim UP = (12, 16) \<and> ahead UP = (12, 20))"
  by (simp add: initial_enemy_def initial_player_pos calculate_target_def set_character_def
      Let_def player_step_def eval_nat_numeral)

subsection \<open>The parts of update_map\<close>

lemma eat_or_teleport_frame:
  assumes "eat_or_teleport fresh plr gv cd = Inr (pl, gv', cd')"
  shows "is_over pl = is_over plr" "max_score pl = max_score plr"
    "portal_1 pl = portal_1 plr" "portal_2 pl = portal_2 plr" "direction pl = direction plr"
    "current_anim_frame pl = current_anim_frame plr"
  using assms
  by (auto simp add: eat_or_teleport_def split: option.splits if_splits)

lemma caught_is_over [simp]: "caught (pl\<lparr>is_over := b\<rparr>) e = caught pl e"
  by (simp add: caught_def)

lemma eaten_is_over [simp]: "eaten (pl\<lparr>is_over := b\<rparr>) e = eaten pl e"
  by (simp add: eaten_def)

lemma update_map_Inr:
  assumes "update_map g = Inr g'"
  obtains fresh pl gv cd drawn where
    "redraw (game_vec g) (game_map g) = Inr fresh"
    "eat_or_teleport fresh (pacman g) (game_vec g) (frightened_countdown g) = Inr (pl, gv, cd)"
    "draw_all fresh [(player.pos pl, player_glyph pl),
        (enemy.pos (ghost1 g), icon (ghost1 g)), (enemy.pos (ghost2 g), icon (ghost2 g)),
        (enemy.pos (ghost3 g), icon (ghost3 g)), (enemy.pos (ghost4 g), icon (ghost4 g))] = Inr drawn"
    "(pacman g', ghost1 g', ghost2 g', ghost3 g', ghost4 g')
       = collisions pl (ghost1 g) (ghost2 g) (ghost3 g) (ghost4 g)"
    "game_map g' = drawn" "game_vec g' = gv" "frightened_countdown g' = cd"
    "frameCount g' = frameCount g" "secs g' = secs g" "gen g' = gen g"
    "game_is_running g' = game_is_running g"
  using assms unfolding update_map_def
  by (auto split: sum.splits prod.splits)

lemma collisions_cases:
  assumes "collisions pl g1 g2 g3 g4 = (pl', g1', g2', g3', g4')"
  shows "pl' = pl\<lparr>is_over := is_over pl \<or> caught pl g1 \<or> caught pl g2
                              \<or> caught pl g3 \<or> caught pl g4\<rparr>"
    and "g1' = (if eaten pl g1
                then g1\<lparr>enemy.pos := (8, 16), character := BLINKY, icon := CHR ''B'',
                        mode := NORMAL\<rparr>
                else g1)"
    and "g2' = (if eaten pl g2
                then g2\<lparr>enemy.pos := (8, 16), character := PINKY, icon := CHR ''P''\<rparr>
                else g2)"
    and "g3' = (if eaten pl g3
                then g3\<lparr>enemy.pos := (8, 16), character := INKY, icon := CHR ''I'',
                        mode := NORMAL\<rparr>
                else g3)"
    and "\<not> eaten pl g2 \<Longrightarrow>
         g4' = (if eaten pl g4
                then g4\<lparr>enemy.pos := (8, 16), character := CLYDE, icon := CHR ''C'',
                        mode := NORMAL\<rparr>
                else g4)"
    and "eaten pl g2 \<Longrightarrow> g4' = g4\<lparr>mode := NORMAL\<rparr>"
  using assms
  by (auto simp add: collisions_def Let_def set_character_def eaten_def)

lemma main_init_example: "main_init blank_map [] (Some example_file) = Inr example_start"
  by (simp add: main_init_def get_map_str_def example_file_def example_start_def
      valid_chars_def initial_player_def)

text \<open>
  Claim C4, as the code has it.  After \<open>update_map\<close>, with the player's cell the one the
  player is on after the portals: \<open>is_over\<close> is set exactly when it was set before or an
  enemy that is not frightened is on the player's cell, so a frightened enemy on that
  cell does not set it; a frightened enemy on the player's cell is put on the cell (8, 16),
  the cell main starts the first enemy on, whichever of the four it is, and gets its own
  character and glyph back; the first, the third and the fourth enemy then are in mode
  \<open>NORMAL\<close>; an enemy that is not eaten stays as it is.  What is said of the fourth enemy
  holds when the second one is not eaten in the same step.  Nothing is said of the mode of
  an eaten second enemy.
\<close>

theorem collision_resolution:
  assumes "update_map g = Inr g'"
  shows "(is_over (pacman g') \<longleftrightarrow>
            is_over (pacman g) \<or> caught (pacman g') (ghost1 g) \<or> caught (pacman g') (ghost2 g)
            \<or> caught (pacman g') (ghost3 g) \<or> caught (pacman g') (ghost4 g))
       \<and> ghost1 g' = (if eaten (pacman g') (ghost1 g)
                      then (ghost1 g)\<lparr>enemy.pos := (8, 16), character := BLINKY,
                                      icon := CHR ''B'', mode := NORMAL\<rparr>
                      else ghost1 g)
       \<and> (if eaten (pacman g') (ghost2 g)
          then enemy.pos (ghost2 g') = (8, 16) \<and> character (ghost2 g') = PINKY
               \<and> icon (ghost2 g') = CHR ''P''
          else ghost2 g' = ghost2 g)
       \<and> ghost3 g' = (if eaten (pacman g') (ghost3 g)
                      then (ghost3 g)\<lparr>enemy.pos := (8, 16), character := INKY,
                                      icon := CHR ''I'', mode := NORMAL\<rparr>
                      else ghost3 g)
       \<and> (eaten (pacman g') (ghost2 g)
          \<or> ghost4 g' = (if eaten (pacman g') (ghost4 g)
                         then (ghost4 g)\<lparr>enemy.pos := (8, 16), character := CLYDE,
                                         icon := CHR ''C'', mode := NORMAL\<rparr>
                         else ghost4 g))"
proof -
  from assms obtain fresh pl gv cd where
    eat: "eat_or_teleport fresh (pacman g) (game_vec g) (frightened_countdown g) = Inr (pl, gv, cd)"
    and col: "(pacman g', ghost1 g', ghost2 g', ghost3 g', ghost4 g')
       = collisions pl (ghost1 g) (ghost2 g) (ghost3 g) (ghost4 g)"
    by (rule update_map_Inr)
  note c = collisions_cases [OF col [symmetric]]
  have over: "is_over pl = is_over (pacman g)"
    by (rule eat_or_teleport_frame [OF eat])
  have pos: "player.pos (pacman g') = player.pos pl"
    by (simp add: c(1))
  have same: "caught (pacman g') e = caught pl e" "eaten (pacman g') e = eaten pl e" for e
    by (simp_all add: caught_def eaten_def pos)
  show ?thesis
    using c(2-5) by (auto simp add: same c(1) over)
qed

text \<open>The first enemy, frightened, on the player's cell (16, 20) of the example: it is eaten
  and the player is not caught.\<close>

theorem collision_resolution_witness:
  "update_map blinky_on_player = Inr (projr (update_map blinky_on_player))
   \<and> eaten (pacman (projr (update_map blinky_on_player))) (ghost1 blinky_on_player)
   \<and> ghost1 (projr (update_map blinky_on_player))
       = (ghost1 blinky_on_player)\<lparr>enemy.pos := (8, 16), character := BLINKY,
                                   icon := CHR ''B'', mode := NORMAL\<rparr>
   \<and> \<not> is_over (pacman (projr (update_map blinky_on_player)))"
proof -
  have h: "update_map blinky_on_player = Inr (projr (update_map blinky_on_player))"
    by code_simp
  note c = collision_resolution [OF h]
  have e: "eaten (pacman (projr (update_map blinky_on_player))) (ghost1 blinky_on_player)"
    by code_simp
  from c e have r: "ghost1 (projr (update_map blinky_on_player))
       = (ghost1 blinky_on_player)\<lparr>enemy.pos := (8, 16), character := BLINKY,
                                   icon := CHR ''B'', mode := NORMAL\<rparr>"
    by simp
  have n: "\<not> is_over (pacman (projr (update_map blinky_on_player)))"
    by code_simp
  from h e r n show ?thesis by blast
qed

text \<open>Claim C4 as the spec states it fails on the state main starts from with the example
  file, once an enemy is frightened and on the player's cell (16, 20): the third enemy,
  started on (10, 15), is put on (8, 16); the second enemy stays frightened when it is
  eaten, and the fourth one, in scatter mode on another cell, is put in mode
  \<open>NORMAL\<close>.\<close>

theorem collision_resolution_counterexample:
  "main_init blank_map [] (Some example_file) = Inr example_start
   \<and> map_sum id (enemy.pos \<circ> ghost3)
      (update_map (example_start\<lparr>ghost3 := frighten_on (16, 20) (ghost3 example_start)\<rparr>))
     = Inr (8, 16)
   \<and> enemy.pos (ghost3 example_start) = (10, 15)
   \<and> map_sum id (mode \<circ> ghost2)
      (update_map (example_start\<lparr>ghost2 := frighten_on (16, 20) (ghost2 example_start)\<rparr>))
     = Inr FRIGHTENED
   \<and> map_sum id (mode \<circ> ghost4)
      (update_map (example_start\<lparr>ghost2 := frighten_on (16, 20) (ghost2 example_start)\<rparr>))
     = Inr NORMAL
   \<and> mode (ghost4 example_start) = SCATTER
   \<and> player.pos (pacman example_start) = (16, 20)"
  by code_simp

subsection \<open>The modes at the start of a round\<close>

lemma handle_input_ghosts:
  "ghost1 (handle_input key g) = ghost1 g" "ghost2 (handle_input key g) = ghost2 g"
  "ghost3 (handle_input key g) = ghost3 g" "ghost4 (handle_input key g) = ghost4 g"
  by (simp_all add: handle_input_def quit_on_q_def steer_def split: option.split)

lemma handle_input_timers:
  "frameCount (handle_input key g) = frameCount g" "secs (handle_input key g) = secs g"
  "frightened_countdown (handle_input key g) = frightened_countdown g"
  by (simp_all add: handle_input_def quit_on_q_def steer_def split: option.split)

lemma update_modes_frightened:
  assumes "frightened_countdown g \<noteq> 0"
  shows "mode (ghost1 (update_modes g)) = FRIGHTENED" "mode (ghost2 (update_modes g)) = FRIGHTENED"
    "mode (ghost3 (update_modes g)) = FRIGHTENED" "mode (ghost4 (update_modes g)) = FRIGHTENED"
    "icon (ghost1 (update_modes g)) = CHR ''X''" "icon (ghost2 (update_modes g)) = CHR ''X''"
    "icon (ghost3 (update_modes g)) = CHR ''X''" "icon (ghost4 (update_modes g)) = CHR ''X''"
  using assms by (simp_all add: update_modes_def set_modes_def set_icons_def Let_def)

text \<open>
  Claim C10.  A round of the loop that starts with the frightened countdown not zero is
  the moves and then \<open>update_map\<close> (the collisions) run on a state \<open>g3\<close> in which all four
  enemies are in mode \<open>FRIGHTENED\<close> with the glyph \<open>X\<close>: lines 606 to 615 come before both.
  The state \<open>g\<close> is any state a round starts in, so also the one that \<open>update_map\<close> left
  with an eaten enemy in mode \<open>NORMAL\<close>.
\<close>

theorem frightened_forced_at_tick_start:
  assumes "frightened_countdown g \<noteq> 0"
  shows "(let g3 = handle_input key (update_modes (next_frame g))
          in tick width height key g
               = and_then (moves width height g3) (\<lambda>g5. Some (update_map g5))
           \<and> (\<forall>e \<in> {ghost1 g3, ghost2 g3, ghost3 g3, ghost4 g3}.
                 mode e = FRIGHTENED \<and> icon e = CHR ''X''))"
proof -
  have "frightened_countdown (next_frame g) \<noteq> 0"
    using assms by (simp add: next_frame_def)
  then show ?thesis
    by (simp add: Let_def tick_def handle_input_ghosts update_modes_frightened)
qed

text \<open>The first enemy of the example is eaten while the countdown is 5: \<open>update_map\<close>
  leaves it in mode \<open>NORMAL\<close>, and the next round moves it in mode \<open>FRIGHTENED\<close>.\<close>

theorem frightened_forced_at_tick_start_witness:
  "mode (ghost1 (projr (update_map blinky_on_player))) = NORMAL
   \<and> frightened_countdown (projr (update_map blinky_on_player)) \<noteq> 0
   \<and> mode (ghost1 (handle_input None
        (update_modes (next_frame (projr (update_map blinky_on_player)))))) = FRIGHTENED
   \<and> icon (ghost1 (handle_input None
        (update_modes (next_frame (projr (update_map blinky_on_player)))))) = CHR ''X''"
proof -
  have h: "frightened_countdown (projr (update_map blinky_on_player)) \<noteq> 0"
    by code_simp
  have n: "mode (ghost1 (projr (update_map blinky_on_player))) = NORMAL"
    by code_simp
  from frightened_forced_at_tick_start [OF h, of None HEIGHT WIDTH]
  have "mode (ghost1 (handle_input None
          (update_modes (next_frame (projr (update_map blinky_on_player)))))) = FRIGHTENED
        \<and> icon (ghost1 (handle_input None
          (update_modes (next_frame (projr (update_map blinky_on_player)))))) = CHR ''X''"
    by (simp add: Let_def)
  with h n show ?thesis by blast
qed

subsection \<open>get_map_str\<close>

lemma positions_Nil [simp]: "positions c n [] = []"
  by (simp add: positions_def)

lemma positions_Cons:
  "positions c n (x # xs) = (if x = c then [n] else []) @ positions c (Suc n) xs"
  by (simp add: positions_def)

lemma last_or_Nil [simp]: "last_or d [] = d"
  by (simp add: last_or_def)

lemma last_or_Cons [simp]: "last_or d (x # xs) = last_or x xs"
  by (simp add: last_or_def)

lemma last_or_append: "last_or d (xs @ ys) = last_or (last_or d xs) ys"
  by (simp add: last_or_def)

lemma scan_buff_eq:
  "scan_buff row cs (of_nat n) (line, p) =
     (line @ filter (\<lambda>c. c \<in> valid_chars) cs,
      p\<lparr>max_score := max_score p + 10 * of_nat (length (positions CHR ''.'' n cs))
                       + 50 * of_nat (length (positions CHR ''@'' n cs)),
        portal_1 := last_or (portal_1 p) (map (\<lambda>i. (row, of_nat i)) (positions CHR '']'' n cs)),
        portal_2 := last_or (portal_2 p) (map (\<lambda>i. (row, of_nat i)) (positions CHR ''['' n cs))\<rparr>)"
proof (induction cs arbitrary: n line p)
  case Nil
  show ?case by simp
next
  case (Cons c cs)
  have step: "(of_nat n :: size_t) + 1 = of_nat (Suc n)"
    by simp
  show ?case
    unfolding scan_buff.simps step Cons.IH
    by (simp add: positions_Cons algebra_simps)
qed

lemma occurrences_Nil [simp]: "occurrences c r [] = []"
  by (simp add: occurrences_def)

lemma occurrences_Cons:
  "occurrences c r (l # ls) = map (Pair r) (positions c 0 l) @ occurrences c (Suc r) ls"
  by (simp add: occurrences_def)

lemma read_lines_eq:
  "read_lines file_lines (answer, p) =
     (answer @ map (filter (\<lambda>c. c \<in> valid_chars)) file_lines,
      parsed file_lines (length answer) p)"
proof (induction file_lines arbitrary: answer p)
  case Nil
  show ?case by (simp add: parsed_def)
next
  case (Cons l ls)
  show ?case
    unfolding read_lines.simps scan_buff_eq [of _ _ 0, simplified] prod.case Cons.IH
    by (simp add: parsed_def occurrences_Cons last_or_append to_coord_def comp_def algebra_simps)
qed

text \<open>
  Claim C9, as the code has it.  For every file that opens, \<open>get_map_str\<close> returns the
  lines with the characters outside \<open>valid_chars\<close> dropped, and the player with 10 added to
  \<open>max_score\<close> for every \<open>.\<close> and 50 for every \<open>@\<close> of the file (in 32-bit arithmetic),
  \<open>portal_1\<close> on the last \<open>]\<close> and \<open>portal_2\<close> on the last \<open>[\<close> in parse order, as (number
  of the line, index in the line as read), and unchanged when the file has none.
\<close>

theorem get_map_str_parse:
  "get_map_str (Some file_lines) p =
     Inr (map (filter (\<lambda>c. c \<in> valid_chars)) file_lines, parsed file_lines 0 p)"
  by (simp add: get_map_str_def read_lines_eq)

text \<open>Claim C9 as the spec states it fails on the file of the one line \<open>[[\<close>: the first
  bracket of the row is at index 0, and \<open>portal_2\<close> is recorded at index 1.  On the file
  of the lines \<open>[ ]\<close> and \<open>].[\<close> both portals are on the second line.\<close>

theorem get_map_str_parse_counterexample:
  "get_map_str (Some [''[['']) initial_player
     = Inr ([''[[''], initial_player\<lparr>portal_2 := (0, 1)\<rparr>)
   \<and> positions CHR ''['' 0 ''[['' = [0, 1]
   \<and> get_map_str (Some [''[ ]'', ''].['']) initial_player
     = Inr ([''[ ]'', ''].[''],
            initial_player\<lparr>max_score := 10, portal_1 := (1, 0), portal_2 := (1, 2)\<rparr>)"
  by (simp add: get_map_str_def valid_chars_def initial_player_def positions_def)

subsection \<open>The fresh map and the portals\<close>

lemma length_overlay_row [simp]: "length (overlay_row src dst) = length dst"
  by (simp add: overlay_row_def)

lemma nth_overlay_row:
  "j < length dst \<Longrightarrow> overlay_row src dst ! j = (if j < length src then src ! j else dst ! j)"
  by (simp add: overlay_row_def nth_append)

lemma length_overlay [simp]: "length (overlay vs rows) = length rows"
  by (induction vs rows rule: overlay.induct) simp_all

lemma nth_overlay:
  "i < length rows \<Longrightarrow>
   overlay vs rows ! i = (if i < length vs then overlay_row (vs ! i) (rows ! i) else rows ! i)"
proof (induction vs rows arbitrary: i rule: overlay.induct)
  case (3 v vs r rs)
  then show ?case by (cases i) simp_all
qed simp_all

text \<open>The cell of the fresh map: the character of the persistent layer where it has one,
  a blank elsewhere.\<close>

lemma cell_at_redraw:
  assumes "redraw gv gm = Inr fresh" and "cell_at fresh i j = Some c"
  shows "c = (case cell_at gv i j of Some x \<Rightarrow> x | None \<Rightarrow> CHR '' '')"
proof -
  from assms(1) have fresh: "fresh = overlay gv (map (map (\<lambda>c. CHR '' '')) gm)"
    by (simp add: redraw_def split: if_splits)
  from assms(2) have i: "unat i < length gm" and j: "unat j < length (gm ! unat i)"
    and c: "c = fresh ! unat i ! unat j"
    by (auto simp add: cell_at_def fresh nth_overlay split: if_splits)
  show ?thesis
    using i j unfolding c fresh
    by (simp add: nth_overlay nth_overlay_row cell_at_def)
qed

lemma update_map_no_pellet:
  assumes "update_map g = Inr g'" and "no_pellet_under g"
  shows "player.pos (pacman g') =
           (if player.pos (pacman g) = portal_1 (pacman g)
            then (fst (portal_2 (pacman g)), snd (portal_2 (pacman g)) + 1)
            else if player.pos (pacman g) = portal_2 (pacman g)
            then (fst (portal_1 (pacman g)), snd (portal_1 (pacman g)) - 1)
            else player.pos (pacman g))"
    and "score (pacman g') = score (pacman g)" and "game_vec g' = game_vec g"
    and "frightened_countdown g' = frightened_countdown g"
proof -
  from assms(1) obtain fresh pl gv cd where
    re: "redraw (game_vec g) (game_map g) = Inr fresh"
    and eat: "eat_or_teleport fresh (pacman g) (game_vec g) (frightened_countdown g) = Inr (pl, gv, cd)"
    and col: "(pacman g', ghost1 g', ghost2 g', ghost3 g', ghost4 g')
       = collisions pl (ghost1 g) (ghost2 g) (ghost3 g) (ghost4 g)"
    and rest: "game_vec g' = gv" "frightened_countdown g' = cd"
    by (rule update_map_Inr)
  from eat obtain c where
    c: "cell_at fresh (fst (player.pos (pacman g))) (snd (player.pos (pacman g))) = Some c"
    by (auto simp add: eat_or_teleport_def split: option.splits)
  from cell_at_redraw [OF re c] assms(2) have nc: "c \<noteq> CHR ''.''" "c \<noteq> CHR ''@''"
    by (auto simp add: no_pellet_under_def split: option.splits)
  have pl: "pacman g' = pl\<lparr>is_over := is_over (pacman g')\<rparr>"
    using collisions_cases(1) [OF col [symmetric]] by simp
  have p: "player.pos (pacman g') = player.pos pl" "score (pacman g') = score pl"
    by (subst pl, simp)+
  from eat c nc show "player.pos (pacman g') =
           (if player.pos (pacman g) = portal_1 (pacman g)
            then (fst (portal_2 (pacman g)), snd (portal_2 (pacman g)) + 1)
            else if player.pos (pacman g) = portal_2 (pacman g)
            then (fst (portal_1 (pacman g)), snd (portal_1 (pacman g)) - 1)
            else player.pos (pacman g))"
    unfolding p by (auto simp add: eat_or_teleport_def prod_eq_iff split: if_splits)
  from eat c nc show "score (pacman g') = score (pacman g)"
    unfolding p by (auto simp add: eat_or_teleport_def split: if_splits)
  from eat c nc show "game_vec g' = game_vec g" "frightened_countdown g' = frightened_countdown g"
    unfolding rest by (auto simp add: eat_or_teleport_def split: if_splits)
qed

lemma main_init_shifted: "main_init blank_map [] (Some shifted_file) = Inr shifted_start"
  by (simp add: main_init_def get_map_str_def shifted_file_def shifted_start_def example_start_def
      valid_chars_def initial_player_def)

lemma update_map_portals:
  assumes "update_map g = Inr g'"
  shows "portal_1 (pacman g') = portal_1 (pacman g)" "portal_2 (pacman g') = portal_2 (pacman g)"
proof -
  from assms obtain fresh pl gv cd where
    eat: "eat_or_teleport fresh (pacman g) (game_vec g) (frightened_countdown g) = Inr (pl, gv, cd)"
    and col: "(pacman g', ghost1 g', ghost2 g', ghost3 g', ghost4 g')
       = collisions pl (ghost1 g) (ghost2 g) (ghost3 g) (ghost4 g)"
    by (rule update_map_Inr)
  have pl: "pacman g' = pl\<lparr>is_over := is_over (pacman g')\<rparr>"
    using collisions_cases(1) [OF col [symmetric]] by simp
  show "portal_1 (pacman g') = portal_1 (pacman g)" "portal_2 (pacman g') = portal_2 (pacman g)"
    by (subst pl, simp add: eat_or_teleport_frame [OF eat])+
qed

lemma player_move_moved:
  assumes "player_move gm p = Inr p'" and "player.pos p' \<noteq> player.pos p"
  shows "p' = p\<lparr>player.pos := player_step (direction p) (player.pos p)\<rparr>"
  using assms by (auto simp add: player_move_def Let_def split: option.splits if_splits)

text \<open>
  Claim C7, as the code has it.  When \<open>update_map\<close> runs with neither a pellet nor a power
  pellet stored on the player's cell: a player on \<open>portal_1\<close> is put on the cell one column
  after \<open>portal_2\<close>; a player on \<open>portal_2\<close>, where this is another cell than \<open>portal_1\<close>, is
  put on the cell one column before \<open>portal_1\<close>; and a player that has come through
  \<open>portal_1\<close>, turns left, steps onto \<open>portal_2\<close> and comes through it is then one step
  to the left of \<open>portal_1\<close>, the cell from which a step to the right enters the portal
  of the start.
\<close>

theorem portal_teleport:
  assumes "update_map g = Inr g'" and "no_pellet_under g"
  shows "(player.pos (pacman g) = portal_1 (pacman g) \<longrightarrow>
            player.pos (pacman g') = (fst (portal_2 (pacman g)), snd (portal_2 (pacman g)) + 1))
       \<and> (player.pos (pacman g) = portal_2 (pacman g) \<and> portal_2 (pacman g) \<noteq> portal_1 (pacman g) \<longrightarrow>
            player.pos (pacman g') = (fst (portal_1 (pacman g)), snd (portal_1 (pacman g)) - 1))
       \<and> (\<forall>pl g''. player.pos (pacman g) = portal_1 (pacman g)
             \<and> portal_2 (pacman g) \<noteq> portal_1 (pacman g)
             \<and> player_move (game_map g') ((pacman g')\<lparr>direction := LEFT\<rparr>) = Inr pl
             \<and> player.pos pl \<noteq> player.pos (pacman g')
             \<and> no_pellet_under (g'\<lparr>pacman := pl\<rparr>)
             \<and> update_map (g'\<lparr>pacman := pl\<rparr>) = Inr g''
           \<longrightarrow> player.pos (pacman g'') = (fst (portal_1 (pacman g)), snd (portal_1 (pacman g)) - 1)
              \<and> player_step RIGHT (player.pos (pacman g'')) = player.pos (pacman g))"
proof (intro conjI impI allI)
  assume "player.pos (pacman g) = portal_1 (pacman g)"
  then show "player.pos (pacman g') = (fst (portal_2 (pacman g)), snd (portal_2 (pacman g)) + 1)"
    using update_map_no_pellet(1) [OF assms] by simp
next
  assume "player.pos (pacman g) = portal_2 (pacman g) \<and> portal_2 (pacman g) \<noteq> portal_1 (pacman g)"
  then show "player.pos (pacman g') = (fst (portal_1 (pacman g)), snd (portal_1 (pacman g)) - 1)"
    using update_map_no_pellet(1) [OF assms] by simp
next
  fix pl g''
  assume a: "player.pos (pacman g) = portal_1 (pacman g)
             \<and> portal_2 (pacman g) \<noteq> portal_1 (pacman g)
             \<and> player_move (game_map g') ((pacman g')\<lparr>direction := LEFT\<rparr>) = Inr pl
             \<and> player.pos pl \<noteq> player.pos (pacman g')
             \<and> no_pellet_under (g'\<lparr>pacman := pl\<rparr>)
             \<and> update_map (g'\<lparr>pacman := pl\<rparr>) = Inr g''"
  then have first: "player.pos (pacman g') = (fst (portal_2 (pacman g)), snd (portal_2 (pacman g)) + 1)"
    using update_map_no_pellet(1) [OF assms] by simp
  from a have "pl = (pacman g')\<lparr>direction := LEFT\<rparr>
          \<lparr>player.pos := player_step LEFT (player.pos (pacman g'))\<rparr>"
    using player_move_moved [of "game_map g'" "(pacman g')\<lparr>direction := LEFT\<rparr>" pl] by simp
  then have pl: "player.pos pl = portal_2 (pacman g)" "portal_1 pl = portal_1 (pacman g)"
    "portal_2 pl = portal_2 (pacman g)"
    by (simp_all add: first player_step_def update_map_portals [OF assms(1)])
  from a have "update_map (g'\<lparr>pacman := pl\<rparr>) = Inr g''" "no_pellet_under (g'\<lparr>pacman := pl\<rparr>)"
    by simp_all
  from update_map_no_pellet(1) [OF this] a
  have second: "player.pos (pacman g'') = (fst (portal_1 (pacman g)), snd (portal_1 (pacman g)) - 1)"
    by (simp add: pl)
  show "player.pos (pacman g'') = (fst (portal_1 (pacman g)), snd (portal_1 (pacman g)) - 1)"
    by (rule second)
  show "player_step RIGHT (player.pos (pacman g'')) = player.pos (pacman g)"
    using a by (simp add: second player_step_def)
qed

text \<open>On the example: from \<open>portal_1\<close> (1, 4) to (1, 1), a step left onto \<open>portal_2\<close>
  (1, 0), from there to (1, 3).\<close>

theorem portal_teleport_witness:
  "update_map player_on_portal_1 = Inr after_first_portal
   \<and> no_pellet_under player_on_portal_1
   \<and> player.pos (pacman player_on_portal_1) = portal_1 (pacman player_on_portal_1)
   \<and> portal_1 (pacman player_on_portal_1) = (1, 4)
   \<and> portal_2 (pacman player_on_portal_1) = (1, 0)
   \<and> player.pos (pacman after_first_portal) = (1, 1)
   \<and> player.pos stepped_left = (1, 0)
   \<and> update_map (after_first_portal\<lparr>pacman := stepped_left\<rparr>) = Inr after_second_portal
   \<and> player.pos (pacman after_second_portal) = (1, 3)
   \<and> player_step RIGHT (player.pos (pacman after_second_portal)) = (1, 4)"
proof -
  have h1: "update_map player_on_portal_1 = Inr after_first_portal"
    by code_simp
  have h2: "no_pellet_under player_on_portal_1"
    by code_simp
  have at: "player.pos (pacman player_on_portal_1) = portal_1 (pacman player_on_portal_1)"
    and p1: "portal_1 (pacman player_on_portal_1) = (1, 4)"
    and p2: "portal_2 (pacman player_on_portal_1) = (1, 0)"
    by code_simp+
  have ne: "portal_2 (pacman player_on_portal_1) \<noteq> portal_1 (pacman player_on_portal_1)"
    by code_simp
  have mv: "player_move (game_map after_first_portal)
              ((pacman after_first_portal)\<lparr>direction := LEFT\<rparr>) = Inr stepped_left"
    by code_simp
  have moved: "player.pos stepped_left \<noteq> player.pos (pacman after_first_portal)"
    and sl: "player.pos stepped_left = (1, 0)"
    by code_simp+
  have np: "no_pellet_under (after_first_portal\<lparr>pacman := stepped_left\<rparr>)"
    by code_simp
  have h3: "update_map (after_first_portal\<lparr>pacman := stepped_left\<rparr>) = Inr after_second_portal"
    by code_simp
  note c = portal_teleport [OF h1 h2]
  from c at have r1: "player.pos (pacman after_first_portal)
      = (fst (portal_2 (pacman player_on_portal_1)), snd (portal_2 (pacman player_on_portal_1)) + 1)"
    by blast
  from c at ne mv moved np h3
  have r2: "player.pos (pacman after_second_portal)
      = (fst (portal_1 (pacman player_on_portal_1)), snd (portal_1 (pacman player_on_portal_1)) - 1)
    \<and> player_step RIGHT (player.pos (pacman after_second_portal))
      = player.pos (pacman player_on_portal_1)"
    by blast
  from r1 have v1: "player.pos (pacman after_first_portal) = (1, 1)"
    by (simp add: p2)
  from r2 have v2: "player.pos (pacman after_second_portal) = (1, 3)"
    by (simp add: p1)
  from r2 have "player_step RIGHT (player.pos (pacman after_second_portal))
      = player.pos (pacman player_on_portal_1)"
    by blast
  then have v3: "player_step RIGHT (player.pos (pacman after_second_portal)) = (1, 4)"
    by (simp only: at p1)
  from h1 h2 at p1 p2 v1 sl h3 v2 v3 show ?thesis
    by blast
qed

text \<open>Claim C7 as the spec states it fails where the portal cell holds a pellet.  In the
  file of the line \<open>x[.]\<close> the bracket \<open>[\<close> is read at index 1, and the stored line
  \<open>[.]\<close> has the pellet there: a player on \<open>portal_2\<close> eats the pellet and stays.\<close>

theorem portal_teleport_counterexample:
  "main_init blank_map [] (Some shifted_file) = Inr shifted_start
   \<and> player.pos (pacman player_on_portal_2) = portal_2 (pacman player_on_portal_2)
   \<and> portal_1 (pacman player_on_portal_2) = (0, 3)
   \<and> map_sum id (player.pos \<circ> pacman) (update_map player_on_portal_2) = Inr (0, 1)
   \<and> map_sum id (score \<circ> pacman) (update_map player_on_portal_2) = Inr 10"
  by code_simp

subsection \<open>One round of the loop\<close>

lemma and_then_Inr:
  "and_then r f = Some (Inr y) \<longleftrightarrow> (\<exists>x. r = Some (Inr x) \<and> f x = Some (Inr y))"
  by (auto simp add: and_then_def split: option.splits sum.splits)

lemma player_move_frame:
  assumes "player_move gm p = Inr p'"
  shows "score p' = score p" "max_score p' = max_score p" "is_over p' = is_over p"
    "portal_1 p' = portal_1 p" "portal_2 p' = portal_2 p" "direction p' = direction p"
  using assms by (auto simp add: player_move_def Let_def split: option.splits if_splits)

lemma next_anim_frame_frame:
  "score (next_anim_frame p) = score p" "max_score (next_anim_frame p) = max_score p"
  "is_over (next_anim_frame p) = is_over p" "player.pos (next_anim_frame p) = player.pos p"
  "portal_1 (next_anim_frame p) = portal_1 p" "portal_2 (next_anim_frame p) = portal_2 p"
  "direction (next_anim_frame p) = direction p"
  by (simp_all add: next_anim_frame_def Let_def)

lemma countdown_update_frame:
  "pacman (countdown_update g) = pacman g" "game_vec (countdown_update g) = game_vec g"
  "game_map (countdown_update g) = game_map g" "gen (countdown_update g) = gen g"
  "game_is_running (countdown_update g) = game_is_running g"
  by (simp_all add: countdown_update_def Let_def set_modes_def reset_characters_def)

lemma countdown_update_timers:
  assumes "frameCount g \<noteq> 60"
  shows "frameCount (countdown_update g) = frameCount g"
    and "frightened_countdown (countdown_update g)
           = (if frameCount g = 0 \<and> frightened_countdown g \<noteq> 0
              then frightened_countdown g - 1 else frightened_countdown g)"
  using assms
  by (auto simp add: countdown_update_def Let_def set_modes_def reset_characters_def)

lemma move_phase_Inr:
  assumes "move_phase width height g = Some (Inr g')"
  obtains p1 g1 g2 g3 g4 rng where
    "player_move (game_map g) (pacman g) = Inr p1"
    "g' = countdown_update (g\<lparr>pacman := next_anim_frame p1, ghost1 := g1, ghost2 := g2,
            ghost3 := g3, ghost4 := g4, gen := rng\<rparr>)"
  using assms unfolding move_phase_def
  by (auto simp add: and_then_Inr Let_def)

lemma moves_Inr_all:
  assumes "moves width height g = Some (Inr g')"
  shows "score (pacman g') = score (pacman g) \<and> max_score (pacman g') = max_score (pacman g) \<and>
    is_over (pacman g') = is_over (pacman g) \<and> portal_1 (pacman g') = portal_1 (pacman g) \<and>
    portal_2 (pacman g') = portal_2 (pacman g) \<and> game_vec g' = game_vec g \<and>
    game_is_running g' = game_is_running g \<and>
    frameCount g' = (if frameCount g = 60 then 0 else frameCount g) \<and>
    frightened_countdown g'
       = (if (frameCount g = 60 \<or> frameCount g = 0) \<and> frightened_countdown g \<noteq> 0
          then frightened_countdown g - 1 else frightened_countdown g)"
proof -
  define g4 where "g4 = (if frameCount g = 60 then g\<lparr>frameCount := 0\<rparr> else g)"
  have g4: "pacman g4 = pacman g" "game_vec g4 = game_vec g" "game_is_running g4 = game_is_running g"
    "frightened_countdown g4 = frightened_countdown g"
    "frameCount g4 = (if frameCount g = 60 then 0 else frameCount g)"
    "frameCount g4 \<noteq> 60"
    by (simp_all add: g4_def)
  have zero: "c_rem (sint (0 :: cint)) 10 = 0"
    by (simp add: c_rem_def)
  show ?thesis
  proof (cases "c_rem (sint (frameCount g4)) 10 = 0")
    case True
    with assms have "move_phase width height g4 = Some (Inr g')"
      by (simp add: moves_def g4_def Let_def)
    then obtain p1 e1 e2 e3 e4 rng where
      p1: "player_move (game_map g4) (pacman g4) = Inr p1"
      and g': "g' = countdown_update (g4\<lparr>pacman := next_anim_frame p1, ghost1 := e1, ghost2 := e2,
            ghost3 := e3, ghost4 := e4, gen := rng\<rparr>)"
      by (rule move_phase_Inr)
    show ?thesis
      unfolding g'
      using g4(6)
      by (simp add: countdown_update_frame countdown_update_timers next_anim_frame_frame
          player_move_frame [OF p1] g4(1-5))
  next
    case False
    with assms have g': "g' = g4"
      by (simp add: moves_def g4_def Let_def)
    from False zero have "frameCount g4 \<noteq> 0"
      by auto
    then show ?thesis
      unfolding g' by (auto simp add: g4 split: if_splits)
  qed
qed

lemma moves_Inr:
  assumes "moves width height g = Some (Inr g')"
  shows "score (pacman g') = score (pacman g)" "max_score (pacman g') = max_score (pacman g)"
    "is_over (pacman g') = is_over (pacman g)" "portal_1 (pacman g') = portal_1 (pacman g)"
    "portal_2 (pacman g') = portal_2 (pacman g)" "game_vec g' = game_vec g"
    "game_is_running g' = game_is_running g"
    "frameCount g' = (if frameCount g = 60 then 0 else frameCount g)"
    "frightened_countdown g'
       = (if (frameCount g = 60 \<or> frameCount g = 0) \<and> frightened_countdown g \<noteq> 0
          then frightened_countdown g - 1 else frightened_countdown g)"
  using moves_Inr_all [OF assms] by simp_all

lemma tick_Inr:
  assumes "tick width height key g = Some (Inr g')"
  obtains g5 where
    "moves width height (handle_input key (update_modes (next_frame g))) = Some (Inr g5)"
    "update_map g5 = Inr g'"
  using assms by (auto simp add: tick_def and_then_Inr)

lemma update_modes_frame:
  "pacman (update_modes g) = pacman g" "game_vec (update_modes g) = game_vec g"
  "frameCount (update_modes g) = frameCount g" "secs (update_modes g) = secs g"
  "frightened_countdown (update_modes g) = frightened_countdown g"
  "game_is_running (update_modes g) = game_is_running g"
  by (simp_all add: update_modes_def set_modes_def set_icons_def Let_def)

lemma next_frame_frame:
  "pacman (next_frame g) = pacman g" "game_vec (next_frame g) = game_vec g"
  "frameCount (next_frame g) = frameCount g + 1" "secs (next_frame g) = secs g"
  "frightened_countdown (next_frame g) = frightened_countdown g"
  "game_is_running (next_frame g) = game_is_running g"
  "ghost1 (next_frame g) = ghost1 g" "ghost2 (next_frame g) = ghost2 g"
  "ghost3 (next_frame g) = ghost3 g" "ghost4 (next_frame g) = ghost4 g"
  by (simp_all add: next_frame_def)


lemma update_map_countdown:
  assumes "update_map g = Inr g'"
  shows "frightened_countdown g' = (if power_pellet_under g then 10 else frightened_countdown g)"
proof -
  from assms obtain fresh pl gv cd where
    re: "redraw (game_vec g) (game_map g) = Inr fresh"
    and eat: "eat_or_teleport fresh (pacman g) (game_vec g) (frightened_countdown g) = Inr (pl, gv, cd)"
    and cd: "frightened_countdown g' = cd"
    by (rule update_map_Inr)
  from eat obtain c where
    c: "cell_at fresh (fst (player.pos (pacman g))) (snd (player.pos (pacman g))) = Some c"
    by (auto simp add: eat_or_teleport_def split: option.splits)
  have "c = CHR ''@'' \<longleftrightarrow> power_pellet_under g"
    unfolding cell_at_redraw [OF re c] power_pellet_under_def
    by (auto split: option.splits)
  with eat c show ?thesis
    unfolding cd by (auto simp add: eat_or_teleport_def split: if_splits option.splits)
qed

lemma frameCount_succ:
  assumes "(x :: cint) < 60"
  shows "x + 1 = 60 \<longleftrightarrow> x = 59" and "x + 1 \<noteq> 0"
proof -
  have u: "unat (x + 1) = unat x + 1"
    using assms by (simp add: word_less_nat_alt unat_word_ariths)
  show "x + 1 = 60 \<longleftrightarrow> x = 59"
    by auto
  show "x + 1 \<noteq> 0"
    using u by (auto simp del: of_nat_add)
qed

lemma calculate_target_keeps:
  "mode (calculate_target width height pac blinky e) = mode e"
  "icon (calculate_target width height pac blinky e) = icon e"
  "character (calculate_target width height pac blinky e) = character e"
  "enemy.pos (calculate_target width height pac blinky e) = enemy.pos e"
  "prev_move (calculate_target width height pac blinky e) = prev_move e"
  by (simp_all add: calculate_target_def Let_def
      split: ENEMY_MODE.split ENEMY_TYPE.split DIRECTION.split)

lemma enemy_move_keeps:
  assumes "enemy_move gm width height pac blinky rng e = Some (Inr (e', rng'))"
  shows "mode e' = mode e" "icon e' = icon e" "character e' = character e"
  using assms
  by (auto simp add: enemy_move_def chase_move_def Let_def calculate_target_keeps
      split: if_splits option.splits sum.splits prod.splits)

lemma move_phase_ghosts:
  assumes "move_phase width height g = Some (Inr g')"
  obtains p e1 e2 e3 e4 rng where
    "g' = countdown_update (g\<lparr>pacman := p, ghost1 := e1, ghost2 := e2,
            ghost3 := e3, ghost4 := e4, gen := rng\<rparr>)"
    "mode e1 = mode (ghost1 g)" "mode e2 = mode (ghost2 g)"
    "mode e3 = mode (ghost3 g)" "mode e4 = mode (ghost4 g)"
proof -
  from assms obtain p1 e1 rng1 e2 rng2 e3 rng3 e4 rng4 where
    m: "enemy_move (game_map g) width height (next_anim_frame p1) (ghost1 g) (gen g) (ghost1 g)
          = Some (Inr (e1, rng1))"
       "enemy_move (game_map g) width height (next_anim_frame p1) e1 rng1 (ghost2 g)
          = Some (Inr (e2, rng2))"
       "enemy_move (game_map g) width height (next_anim_frame p1) e1 rng2 (ghost3 g)
          = Some (Inr (e3, rng3))"
       "enemy_move (game_map g) width height (next_anim_frame p1) e1 rng3 (ghost4 g)
          = Some (Inr (e4, rng4))"
    and g': "g' = countdown_update (g\<lparr>pacman := next_anim_frame p1, ghost1 := e1, ghost2 := e2,
            ghost3 := e3, ghost4 := e4, gen := rng4\<rparr>)"
    unfolding move_phase_def by (auto simp add: and_then_Inr Let_def)
  show thesis
    by (rule that [OF g' enemy_move_keeps(1) [OF m(1)] enemy_move_keeps(1) [OF m(2)]
          enemy_move_keeps(1) [OF m(3)] enemy_move_keeps(1) [OF m(4)]])
qed

lemma countdown_update_reaches_zero:
  assumes "frameCount g = 0" and "frightened_countdown g \<noteq> 0"
    and "frightened_countdown (countdown_update g) = 0"
  shows "own_glyphs (countdown_update g)"
    and "secs g \<noteq> 7 \<Longrightarrow> all_modes NORMAL (countdown_update g)"
    and "secs g = 7 \<Longrightarrow> mode (ghost1 (countdown_update g)) = mode (ghost1 g)
           \<and> mode (ghost2 (countdown_update g)) = mode (ghost2 g)
           \<and> mode (ghost3 (countdown_update g)) = mode (ghost3 g)
           \<and> mode (ghost4 (countdown_update g)) = mode (ghost4 g)"
  using assms
  by (auto simp add: countdown_update_def Let_def set_modes_def reset_characters_def
      set_character_def own_glyphs_def all_modes_def split: if_splits)

lemma moves_reaches_zero:
  assumes "moves width height g = Some (Inr g')" and "frameCount g \<noteq> 0"
    and "frightened_countdown g \<noteq> 0" and "frightened_countdown g' = 0"
  shows "own_glyphs g'" and "secs g \<noteq> 7 \<Longrightarrow> all_modes NORMAL g'"
proof -
  from moves_Inr(9) [OF assms(1)] assms(2-4) have f: "frameCount g = 60"
    by (auto split: if_splits)
  have zero: "c_rem (sint (0 :: cint)) 10 = 0"
    by (simp add: c_rem_def)
  from assms(1) f zero have "move_phase width height (g\<lparr>frameCount := 0\<rparr>) = Some (Inr g')"
    by (simp add: moves_def Let_def)
  then obtain p e1 e2 e3 e4 rng where
    g': "g' = countdown_update (g\<lparr>frameCount := 0\<rparr>\<lparr>pacman := p, ghost1 := e1, ghost2 := e2,
            ghost3 := e3, ghost4 := e4, gen := rng\<rparr>)"
    by (rule move_phase_ghosts)
  show "own_glyphs g'"
    using assms(3,4) unfolding g' by (intro countdown_update_reaches_zero(1)) simp_all
  show "all_modes NORMAL g'" if "secs g \<noteq> 7"
    using assms(3,4) that unfolding g' by (intro countdown_update_reaches_zero(2)) simp_all
qed

text \<open>
  Claim C8, as the code has it.  A round of the loop that starts with the frame counter
  below 60 consists of the moves phase, which ends in a state \<open>g5\<close>, and \<open>update_map\<close>.  The
  frame counter goes from 59 to 0 and otherwise up by one, so it counts the 60 rounds of a
  second.  The moves phase takes one off the countdown exactly in the round that starts
  with the frame counter at 59, when the countdown is not zero, and leaves it alone in
  every other round: once a second and never by two.  \<open>update_map\<close> then sets the
  countdown to 10 exactly when the persistent layer has a power pellet on the player's
  cell.  When the moves phase brings the countdown to zero the four enemies have their
  glyphs back, and are in mode \<open>NORMAL\<close> when \<open>secs\<close> is not 7; with \<open>secs\<close> at 7 and the
  countdown at zero, the start of a round puts all four in mode \<open>NORMAL\<close>.
\<close>

theorem frightened_countdown_rule:
  assumes "tick width height key g = Some (Inr g')" and "frameCount g < 60"
  shows "\<exists>g5. moves width height (handle_input key (update_modes (next_frame g))) = Some (Inr g5)
           \<and> update_map g5 = Inr g'
           \<and> frameCount g' = (if frameCount g = 59 then 0 else frameCount g + 1)
           \<and> frightened_countdown g5
               = (if frameCount g = 59 \<and> frightened_countdown g \<noteq> 0
                  then frightened_countdown g - 1 else frightened_countdown g)
           \<and> frightened_countdown g'
               = (if power_pellet_under g5 then 10 else frightened_countdown g5)
           \<and> (frightened_countdown g \<noteq> 0 \<and> frightened_countdown g5 = 0 \<longrightarrow>
                own_glyphs g5 \<and> (secs g \<noteq> 7 \<longrightarrow> all_modes NORMAL g5))
           \<and> (frightened_countdown g = 0 \<and> secs g = 7 \<longrightarrow>
                all_modes NORMAL (handle_input key (update_modes (next_frame g))))"
proof -
  define g3 where "g3 = handle_input key (update_modes (next_frame g))"
  from assms(1) obtain g5 where
    mv: "moves width height g3 = Some (Inr g5)" and up: "update_map g5 = Inr g'"
    unfolding g3_def by (rule tick_Inr)
  have g3: "frameCount g3 = frameCount g + 1" "frightened_countdown g3 = frightened_countdown g"
    "secs g3 = secs g"
    by (simp_all add: g3_def handle_input_timers update_modes_frame next_frame_frame)
  note succ = frameCount_succ [OF assms(2)]
  have fr: "frameCount g5 = (if frameCount g = 59 then 0 else frameCount g + 1)"
    using moves_Inr(8) [OF mv] by (simp add: g3 succ)
  have "frameCount g' = frameCount g5"
    using up by (rule update_map_Inr)
  with fr have c1: "frameCount g' = (if frameCount g = 59 then 0 else frameCount g + 1)"
    by simp
  have c2: "frightened_countdown g5
               = (if frameCount g = 59 \<and> frightened_countdown g \<noteq> 0
                  then frightened_countdown g - 1 else frightened_countdown g)"
    using moves_Inr(9) [OF mv] by (simp add: g3 succ)
  have c3: "frightened_countdown g'
               = (if power_pellet_under g5 then 10 else frightened_countdown g5)"
    by (rule update_map_countdown [OF up])
  have c4: "own_glyphs g5 \<and> (secs g \<noteq> 7 \<longrightarrow> all_modes NORMAL g5)"
    if "frightened_countdown g \<noteq> 0 \<and> frightened_countdown g5 = 0"
    using moves_reaches_zero [OF mv] that by (simp add: g3 succ)
  have c5: "all_modes NORMAL g3" if "frightened_countdown g = 0 \<and> secs g = 7"
    using that unfolding g3_def
    by (simp add: all_modes_def handle_input_ghosts update_modes_def next_frame_def
        set_modes_def Let_def)
  from mv up c1 c2 c3 c4 c5 show ?thesis
    unfolding g3_def by blast
qed

text \<open>On the example, in the round that starts at frame 59 with the countdown at 10: the
  frame counter becomes 0 and the countdown 9.\<close>

theorem frightened_countdown_rule_witness:
  "main_tick None last_frame = Some (Inr after_last_frame)
   \<and> frameCount last_frame < 60
   \<and> frameCount last_frame = 59
   \<and> frightened_countdown last_frame = 10
   \<and> frameCount after_last_frame = 0
   \<and> frightened_countdown after_last_frame = 9"
proof -
  have h1: "tick HEIGHT WIDTH None last_frame = Some (Inr after_last_frame)"
    unfolding main_tick_def [symmetric] by code_simp
  have h2: "frameCount last_frame < 60"
    by code_simp
  have f: "frameCount last_frame = 59" and c: "frightened_countdown last_frame = 10"
    by code_simp+
  have m: "moves HEIGHT WIDTH (handle_input None (update_modes (next_frame last_frame)))
             = Some (Inr moved_last_frame)"
    by code_simp
  have np: "\<not> power_pellet_under moved_last_frame"
    by code_simp
  from frightened_countdown_rule [OF h1 h2] m
  have "frameCount after_last_frame = (if frameCount last_frame = 59 then 0 else frameCount last_frame + 1)
      \<and> frightened_countdown moved_last_frame
               = (if frameCount last_frame = 59 \<and> frightened_countdown last_frame \<noteq> 0
                  then frightened_countdown last_frame - 1 else frightened_countdown last_frame)
      \<and> frightened_countdown after_last_frame
               = (if power_pellet_under moved_last_frame then 10
                  else frightened_countdown moved_last_frame)"
    by auto
  with np have "frameCount after_last_frame = 0" "frightened_countdown after_last_frame = 9"
    by (simp_all add: f c)
  with h1 h2 f c show ?thesis
    by (simp add: main_tick_def)
qed

text \<open>Claim C8 as the spec states it has the countdown decremented at both the test of
  line 676 and the test of line 693 when both hold.  With the frame counter at 0, \<open>secs\<close>
  not 7 and the countdown at 10 both tests hold, and the countdown becomes 9, not 8: the
  second test is the \<open>else if\<close> of the first.  With \<open>secs\<close> at 7 only the second one holds,
  and the countdown becomes 9 as well.  The round of the example that starts at frame 59
  takes the countdown from 10 to 9.\<close>

theorem frightened_countdown_rule_counterexample:
  "frameCount (example_start\<lparr>frightened_countdown := 10\<rparr>) = 0
   \<and> secs (example_start\<lparr>frightened_countdown := 10\<rparr>) \<noteq> 7
   \<and> frightened_countdown (example_start\<lparr>frightened_countdown := 10\<rparr>) \<noteq> 0
   \<and> frightened_countdown (countdown_update (example_start\<lparr>frightened_countdown := 10\<rparr>)) = 9
   \<and> frightened_countdown
        (countdown_update (example_start\<lparr>frightened_countdown := 10, secs := 7\<rparr>)) = 9
   \<and> frameCount last_frame = 59
   \<and> frightened_countdown last_frame = 10
   \<and> map_option (map_sum id frightened_countdown) (main_tick None last_frame) = Some (Inr 9)"
  by code_simp

subsection \<open>The score and the persistent layer\<close>






















subsection \<open>The chase step of an enemy\<close>

text \<open>\<open>manhattanDistance\<close> is the Manhattan distance for coordinates below \<open>2^29\<close>, where
  the \<open>int\<close> arithmetic does not overflow.\<close>

lemma sint_to_int:
  assumes "unat x < 2 ^ 30"
  shows "sint (to_int x) = int (unat x)"
proof -
  from assms have "int (unat x) < 2 ^ 30"
    by (metis of_nat_less_iff of_nat_numeral of_nat_power)
  then have small: "uint x < 2 ^ 31"
    by simp
  have "sint (to_int x) = signed_take_bit 31 (uint x)"
    by (simp add: to_int_def signed_ucast_eq)
  also have "\<dots> = uint x"
  proof (rule signed_take_bit_int_eq_self)
    show "- (2 ^ 31) \<le> uint x"
      by (rule order_trans [of _ 0]) simp_all
    show "uint x < 2 ^ 31"
      by (rule small)
  qed
  finally show ?thesis by simp
qed

lemma unat_int_to_size:
  assumes "0 \<le> sint a"
  shows "unat (int_to_size a) = nat (sint a)"
proof -
  have "sint a < 2 ^ 31"
    using sint_lt [of a] by simp
  also have "(2 :: int) ^ 31 < 2 ^ 64"
    by (rule power_strict_increasing) simp_all
  finally have lt: "sint a < 2 ^ 64" .
  have "uint (scast a :: size_t) = uint (word_of_int (sint a) :: size_t)"
    by (simp only: scast_eq)
  also have "\<dots> = take_bit LENGTH(64) (sint a)"
    by (rule uint_word_of_int_eq)
  also have "\<dots> = take_bit 64 (sint a)"
    by simp
  also have "\<dots> = sint a"
    using assms lt by (rule take_bit_int_eq_self)
  finally have "uint (scast a :: size_t) = sint a" .
  then show ?thesis
    unfolding int_to_size_def by (simp only: unat_eq_nat_uint)
qed

lemma sint_diff_small:
  assumes "\<bar>sint a\<bar> < 2 ^ 30" and "\<bar>sint b\<bar> < 2 ^ 30"
  shows "sint (a - b :: cint) = sint a - sint b"
proof -
  have "sint (a - b) = signed_take_bit 31 (sint a - sint b)"
    by (simp add: sint_word_diff)
  also have "\<dots> = sint a - sint b"
  proof (rule signed_take_bit_int_eq_self)
    show "- (2 ^ 31) \<le> sint a - sint b" using assms by simp
    show "sint a - sint b < 2 ^ 31" using assms by simp
  qed
  finally show ?thesis .
qed

lemma sint_add_small:
  assumes "\<bar>sint a\<bar> < 2 ^ 30" and "\<bar>sint b\<bar> < 2 ^ 30"
  shows "sint (a + b :: cint) = sint a + sint b"
proof -
  have "sint (a + b) = signed_take_bit 31 (sint a + sint b)"
    by (simp add: sint_word_add)
  also have "\<dots> = sint a + sint b"
  proof (rule signed_take_bit_int_eq_self)
    show "- (2 ^ 31) \<le> sint a + sint b" using assms by simp
    show "sint a + sint b < 2 ^ 31" using assms by simp
  qed
  finally show ?thesis .
qed

lemma sint_abs_int:
  assumes "\<bar>sint a\<bar> < 2 ^ 30"
  shows "sint (abs_int a) = \<bar>sint a\<bar>"
proof (cases "sint a < 0")
  case True
  have "sint (- a) = signed_take_bit 31 (- sint a)"
    by (simp add: sint_word_minus)
  also have "\<dots> = - sint a"
  proof (rule signed_take_bit_int_eq_self)
    show "- (2 ^ 31) \<le> - sint a" using assms by simp
    show "- sint a < 2 ^ 31" using assms by simp
  qed
  finally show ?thesis using True by (simp add: abs_int_def)
next
  case False
  then show ?thesis by (simp add: abs_int_def)
qed

lemma manhattanDistance_cells:
  assumes "unat a < 2 ^ 29" and "unat b < 2 ^ 29" and "unat c < 2 ^ 29" and "unat d < 2 ^ 29"
  shows "unat (manhattanDistance (a, b) (c, d))
           = nat (\<bar>int (unat a) - int (unat c)\<bar> + \<bar>int (unat b) - int (unat d)\<bar>)"
    and "manhattanDistance (a, b) (c, d) < UINT_MAX"
proof -
  define A B C D where "A = int (unat a)" and "B = int (unat b)"
    and "C = int (unat c)" and "D = int (unat d)"
  have bound: "0 \<le> int (unat x) \<and> int (unat x) < 536870912 \<and> unat x < 2 ^ 30"
    if "unat x < 2 ^ 29" for x :: size_t
  proof (intro conjI)
    show "0 \<le> int (unat x)"
      by (rule of_nat_0_le_iff)
    have "int (unat x) < int (2 ^ 29)"
      using that by (simp only: of_nat_less_iff)
    moreover have "int (2 ^ 29) = 536870912"
      by simp
    ultimately show "int (unat x) < 536870912"
      by (simp only:)
    from that show "unat x < 2 ^ 30"
      by simp
  qed
  have A: "0 \<le> A" "A < 536870912" and B: "0 \<le> B" "B < 536870912"
    and C: "0 \<le> C" "C < 536870912" and D: "0 \<le> D" "D < 536870912"
    unfolding A_def B_def C_def D_def
    using bound [OF assms(1)] bound [OF assms(2)] bound [OF assms(3)] bound [OF assms(4)]
    by blast+
  have sa: "sint (to_int a) = A" and sb: "sint (to_int b) = B"
    and sc: "sint (to_int c) = C" and sd: "sint (to_int d) = D"
    unfolding A_def B_def C_def D_def
    using bound [OF assms(1)] bound [OF assms(2)] bound [OF assms(3)] bound [OF assms(4)]
    by (simp_all only: sint_to_int)
  have p30: "(2 :: int) ^ 30 = 1073741824"
    by simp
  have d1: "sint (to_int a - to_int c) = A - C"
    unfolding sa [symmetric] sc [symmetric]
    by (rule sint_diff_small; unfold sa sc p30; use A C in linarith)
  have d2: "sint (to_int b - to_int d) = B - D"
    unfolding sb [symmetric] sd [symmetric]
    by (rule sint_diff_small; unfold sb sd p30; use B D in linarith)
  have a1: "sint (abs_int (to_int a - to_int c)) = \<bar>A - C\<bar>"
    unfolding d1 [symmetric]
    by (rule sint_abs_int; unfold d1 p30; use A C in linarith)
  have a2: "sint (abs_int (to_int b - to_int d)) = \<bar>B - D\<bar>"
    unfolding d2 [symmetric]
    by (rule sint_abs_int; unfold d2 p30; use B D in linarith)
  have s: "sint (abs_int (to_int a - to_int c) + abs_int (to_int b - to_int d))
             = \<bar>A - C\<bar> + \<bar>B - D\<bar>"
    unfolding a1 [symmetric] a2 [symmetric]
    by (rule sint_add_small; unfold a1 a2 p30; use A B C D in linarith)
  have "unat (manhattanDistance (a, b) (c, d))
          = nat (sint (abs_int (to_int a - to_int c) + abs_int (to_int b - to_int d)))"
    unfolding manhattanDistance_def fst_conv snd_conv
    by (rule unat_int_to_size; unfold s; linarith)
  then have u: "unat (manhattanDistance (a, b) (c, d)) = nat (\<bar>A - C\<bar> + \<bar>B - D\<bar>)"
    by (simp only: s)
  then show "unat (manhattanDistance (a, b) (c, d))
           = nat (\<bar>int (unat a) - int (unat c)\<bar> + \<bar>int (unat b) - int (unat d)\<bar>)"
    by (simp only: A_def B_def C_def D_def)
  have "nat (\<bar>A - C\<bar> + \<bar>B - D\<bar>) < 4294967295"
    using A B C D by linarith
  then show "manhattanDistance (a, b) (c, d) < UINT_MAX"
    unfolding u [symmetric] by (simp add: word_less_nat_alt UINT_MAX_def)
qed

text \<open>
  Claim C1 (an enemy that is not frightened steps to the eligible candidate nearest to
  its target, the first one in the order up, down, left, right on a tie, and keeps its
  position and \<open>prev_move\<close> when no candidate is eligible) does not hold of
  \<open>enemy::move\<close> as main calls it, with \<open>width\<close> 40 and \<open>height\<close> 32 on a map
  of 32 rows of 40 cells.  Three runs of Blinky in chase mode, whose target is the cell
  of the player:

  \<^item> On the blank map the enemy is on (5, 31), has come by the step \<open>(0, 1)\<close>, which
    the code calls down, and the player is on (5, 38).  The cell of the next step down,
    (5, 32), is a cell of the map, is blank, and is at distance 6 from the target; down
    is not the reverse of the step the enemy came by.  \<open>isValidPosition\<close> compares the
    second coordinate with \<open>height\<close>, the number of rows, and turns the cell down: the
    enemy steps to (4, 31), at distance 8.

  \<^item> At the end of a corridor the enemy is on (5, 5) and has come by the step up: its
    neighbours (5, 4), (4, 5) and (6, 5) are walls, and (5, 6) is behind it.  No
    candidate is eligible and the enemy stays, but \<open>prev_move\<close> is \<open>LEFT\<close> afterwards
    and not \<open>UP\<close>; on the next call the enemy steps down to (5, 6), the reverse of the
    step it came by.

  \<^item> On the blank map the enemy is on (5, 5) and the player on (4, 4): the cells (5, 4)
    and (4, 5) are both at distance 1.  The enemy steps to (5, 4), the candidate the
    code tries first and calls up; for \<open>player::move\<close> (5, 4) is the step to the left
    and (4, 5) the step up.
\<close>

theorem chase_step_not_as_specified:
  "enemy_move blank_map HEIGHT WIDTH (player_at (5, 38)) (chaser_at (5, 31) DOWN) []
       (chaser_at (5, 31) DOWN)
     = Some (Inr ((chaser_at (5, 31) DOWN)
                    \<lparr>target := (5, 38), prev_move := LEFT, enemy.pos := (4, 31)\<rparr>, []))
   \<and> length blank_map = 32 \<and> length (blank_map ! 5) = 40
   \<and> cell_at blank_map 5 32 = Some CHR '' ''
   \<and> enemy_has_no_collision CHR '' ''
   \<and> getDirection (0, 1) = DOWN
   \<and> getOppositeDirection (prev_move (chaser_at (5, 31) DOWN)) = UP
   \<and> manhattanDistance (5, 32) (5, 38) = 6
   \<and> manhattanDistance (4, 31) (5, 38) = 8
   \<and> \<not> isValidPosition 5 32 HEIGHT WIDTH
   \<and> map (\<lambda>c. cell_at dead_end_map (fst c) (snd c)) [(5, 4), (5, 6), (4, 5), (6, 5)]
       = [Some CHR ''#'', Some CHR '' '', Some CHR ''#'', Some CHR ''#'']
   \<and> \<not> enemy_has_no_collision CHR ''#''
   \<and> getOppositeDirection (prev_move (chaser_at (5, 5) UP)) = DOWN
   \<and> enemy_move dead_end_map HEIGHT WIDTH (player_at (5, 38)) (chaser_at (5, 5) UP) []
         (chaser_at (5, 5) UP)
       = Some (Inr ((chaser_at (5, 5) UP)\<lparr>target := (5, 38), prev_move := LEFT\<rparr>, []))
   \<and> enemy_move dead_end_map HEIGHT WIDTH (player_at (5, 38))
         ((chaser_at (5, 5) UP)\<lparr>target := (5, 38), prev_move := LEFT\<rparr>) []
         ((chaser_at (5, 5) UP)\<lparr>target := (5, 38), prev_move := LEFT\<rparr>)
       = Some (Inr ((chaser_at (5, 5) UP)
                      \<lparr>target := (5, 38), prev_move := DOWN, enemy.pos := (5, 6)\<rparr>, []))
   \<and> enemy_move blank_map HEIGHT WIDTH (player_at (4, 4)) (chaser_at (5, 5) UP) []
         (chaser_at (5, 5) UP)
       = Some (Inr ((chaser_at (5, 5) UP)
                      \<lparr>target := (4, 4), prev_move := UP, enemy.pos := (5, 4)\<rparr>, []))
   \<and> manhattanDistance (5, 4) (4, 4) = 1
   \<and> manhattanDistance (4, 5) (4, 4) = 1
   \<and> player_step LEFT (5, 5) = (5, 4)
   \<and> player_step UP (5, 5) = (4, 5)"
  by code_simp

end
